theory Spec2Isabelle
  imports Main "HOL-Library.AList" "HOL-Library.Char_ord" "HOL-Library.List_Lexorder"
begin


section \<open>Python primitives used by the generators\<close>

text \<open>
  A Python \<^verbatim>\<open>str\<close> is modelled as a \<^typ>\<open>string\<close>, one \<^typ>\<open>char\<close> per code point
  (code points below 256).  A file is the text it holds; a list is a HOL list in the
  same order, so that \<^verbatim>\<open>lines.pop()\<close> takes \<^term>\<open>last lines\<close> and leaves
  \<^term>\<open>butlast lines\<close>, and \<^verbatim>\<open>c.insert(0, line)\<close> is \<^term>\<open>line # c\<close>.
\<close>

abbreviation NL :: char where "NL \<equiv> CHR 0x0A"
abbreviation CR :: char where "CR \<equiv> CHR 0x0D"
abbreviation TAB :: char where "TAB \<equiv> CHR 0x09"
abbreviation SQ :: char where "SQ \<equiv> CHR 0x27"
abbreviation DQ :: char where "DQ \<equiv> CHR 0x22"

text \<open>The exceptions that the modelled code can raise.\<close>

datatype py_error =
    IndexError
  | KeyError
  | NameError
  | IOError
  | ValueError
  | RuntimeError_undefined "string set"
  | RuntimeError_no_reference

text \<open>\<^verbatim>\<open>str.isspace\<close> on the code points below 256.\<close>

definition isspace :: "char \<Rightarrow> bool" where
  "isspace c \<longleftrightarrow> c \<in> set [CHR 0x09, CHR 0x0A, CHR 0x0B, CHR 0x0C, CHR 0x0D,
     CHR 0x1C, CHR 0x1D, CHR 0x1E, CHR 0x1F, CHR 0x20, CHR 0x85, CHR 0xA0]"

text \<open>\<^verbatim>\<open>str.strip()\<close>: whitespace removed at both ends.\<close>

definition strip :: "string \<Rightarrow> string" where
  "strip s = rev (dropWhile isspace (rev (dropWhile isspace s)))"

text \<open>
  Reading a text file with \<^verbatim>\<open>open(f).readlines()\<close>: universal newlines turn
  \<^verbatim>\<open>\r\n\<close> and \<^verbatim>\<open>\r\<close> into \<^verbatim>\<open>\n\<close>, then the text is cut after every
  \<^verbatim>\<open>\n\<close>, each line keeping its terminator.
\<close>

fun universal_newlines :: "string \<Rightarrow> string" where
  "universal_newlines [] = []"
| "universal_newlines [c] = (if c = CR then [NL] else [c])"
| "universal_newlines (c # d # cs) =
     (if c = CR then (if d = NL then NL # universal_newlines cs
                      else NL # universal_newlines (d # cs))
      else c # universal_newlines (d # cs))"

fun split_lines :: "string \<Rightarrow> string \<Rightarrow> string list" where
  "split_lines cur [] = (if cur = [] then [] else [cur])"
| "split_lines cur (c # cs) =
     (if c = NL then (cur @ [c]) # split_lines [] cs else split_lines (cur @ [c]) cs)"

definition readlines :: "string \<Rightarrow> string list" where
  "readlines text = split_lines [] (universal_newlines text)"

text \<open>\<^verbatim>\<open>file.write(s)\<close> on a file opened for writing appends to the text written so far.\<close>

definition file_write :: "string \<Rightarrow> string \<Rightarrow> string" where
  "file_write file s = file @ s"

text \<open>
  \<^verbatim>\<open>str.lower\<close>, \<^verbatim>\<open>str.upper\<close> and \<^verbatim>\<open>str.casefold\<close> on ASCII text, which is what
  the names and namespaces of an ADM are.
\<close>

definition lower_char :: "char \<Rightarrow> char" where
  "lower_char c =
     (case map_of (zip ''ABCDEFGHIJKLMNOPQRSTUVWXYZ'' ''abcdefghijklmnopqrstuvwxyz'') c of
        None \<Rightarrow> c | Some d \<Rightarrow> d)"

definition upper_char :: "char \<Rightarrow> char" where
  "upper_char c =
     (case map_of (zip ''abcdefghijklmnopqrstuvwxyz'' ''ABCDEFGHIJKLMNOPQRSTUVWXYZ'') c of
        None \<Rightarrow> c | Some d \<Rightarrow> d)"

definition lower :: "string \<Rightarrow> string" where
  "lower s = map lower_char s"

definition upper :: "string \<Rightarrow> string" where
  "upper s = map upper_char s"

definition casefold :: "string \<Rightarrow> string" where
  "casefold s = map lower_char s"

text \<open>\<^verbatim>\<open>s.replace(c, new)\<close> for a pattern \<open>c\<close> of one character.\<close>

definition replace_char :: "char \<Rightarrow> string \<Rightarrow> string \<Rightarrow> string" where
  "replace_char c new s = concat (map (\<lambda>x. if x = c then new else [x]) s)"

text \<open>\<^verbatim>\<open>str(n)\<close> and \<^verbatim>\<open>format(n, '#04x')\<close> for an integer that is not negative.\<close>

definition digit_char :: "nat \<Rightarrow> char" where
  "digit_char d = ''0123456789abcdef'' ! d"

function str_nat :: "nat \<Rightarrow> string" where
  "str_nat n = (if n < 10 then [digit_char n] else str_nat (n div 10) @ [digit_char (n mod 10)])"
  by pat_completeness auto
termination
  by (relation "measure id") auto

function hex_nat :: "nat \<Rightarrow> string" where
  "hex_nat n = (if n < 16 then [digit_char n] else hex_nat (n div 16) @ [digit_char (n mod 16)])"
  by pat_completeness auto
termination
  by (relation "measure id") auto

definition format_04x :: "nat \<Rightarrow> string" where
  "format_04x n = ''0x'' @ (if n < 16 then ''0'' else []) @ hex_nat n"

text \<open>A value formatted by \<^verbatim>\<open>{}\<close>: \<^verbatim>\<open>None\<close> prints as \<^verbatim>\<open>None\<close>.\<close>

definition fmt :: "string option \<Rightarrow> string" where
  "fmt v = (case v of None \<Rightarrow> ''None'' | Some s \<Rightarrow> s)"


section \<open>The scrape engine: \<^verbatim>\<open>campch_roundtrip.py\<close>\<close>

subsection \<open>Markers\<close>

definition make_custom_includes_markers :: "string \<times> string" where
  "make_custom_includes_markers =
     (''/*   START CUSTOM INCLUDES HERE  */'', ''/*   STOP CUSTOM INCLUDES HERE  */'')"

definition make_custom_functions_markers :: "string \<times> string" where
  "make_custom_functions_markers =
     (''/*   START CUSTOM FUNCTIONS HERE */'', ''/*   STOP CUSTOM FUNCTIONS HERE  */'')"

definition make_custom_type_enum_markers :: "string \<times> string" where
  "make_custom_type_enum_markers = (''/*   START typeENUM */'', ''/*   STOP typeENUM  */'')"

definition placeholder :: string where
  "placeholder = ''/*             TODO              */'' @ [NL]"

text \<open>\<^verbatim>\<open>_get_custom_body_pieces\<close>: the indicator line, and the marker of a body fence
  (\<^verbatim>\<open>'|{} CUSTOM FUNCTION {} BODY'\<close>) as a function of its two arguments.\<close>

definition indicator :: string where
  "indicator = ''* +'' @ replicate 73 (CHR ''-'') @ ''+''"

definition marker_format :: "string \<Rightarrow> string \<Rightarrow> string" where
  "marker_format kind function = ''|'' @ kind @ '' CUSTOM FUNCTION '' @ function @ '' BODY''"

subsection \<open>The two regular expressions of \<^verbatim>\<open>_get_custom_body_re_markers\<close>\<close>

text \<open>
  The patterns are \<^verbatim>\<open>\* \|START CUSTOM FUNCTION (.+) BODY\<close> and
  \<^verbatim>\<open>\* \|STOP CUSTOM FUNCTION (.+) BODY\<close>: a literal prefix, a greedy group of one or
  more characters other than the newline, and the literal \<^verbatim>\<open> BODY\<close>.
  \<^term>\<open>greedy suf j s\<close> tries the group lengths \<open>j, j - 1, \<dots>, 1\<close> in the order of
  the backtracking matcher and returns the first group after which \<open>suf\<close> follows.
\<close>

fun greedy :: "string \<Rightarrow> nat \<Rightarrow> string \<Rightarrow> string option" where
  "greedy suf 0 s = None"
| "greedy suf (Suc j) s =
     (if take (length suf) (drop (Suc j) s) = suf then Some (take (Suc j) s)
      else greedy suf j s)"

definition dot_plus_then :: "string \<Rightarrow> string \<Rightarrow> string option" where
  "dot_plus_then suf s = greedy suf (length (takeWhile (\<lambda>c. c \<noteq> NL) s)) s"

text \<open>A match of \<open>pre (.+) BODY\<close> starting at the first character of \<open>s\<close>; the
  result is group 1.\<close>

definition match_here :: "string \<Rightarrow> string \<Rightarrow> string option" where
  "match_here pre s =
     (if take (length pre) s = pre then dot_plus_then '' BODY'' (drop (length pre) s)
      else None)"

text \<open>\<^verbatim>\<open>re.search\<close>: the leftmost position at which the pattern matches.\<close>

fun re_search :: "string \<Rightarrow> string \<Rightarrow> string option" where
  "re_search pre [] = match_here pre []"
| "re_search pre (c # cs) =
     (case match_here pre (c # cs) of Some g \<Rightarrow> Some g | None \<Rightarrow> re_search pre cs)"

definition start_re :: "string \<Rightarrow> string option" where
  "start_re clean_line = re_search ''* |START CUSTOM FUNCTION '' clean_line"

text \<open>\<^verbatim>\<open>re.match(end_re, clean_line) != None\<close>: a match at the first character only.\<close>

definition end_re :: "string \<Rightarrow> bool" where
  "end_re clean_line \<longleftrightarrow> match_here ''* |STOP CUSTOM FUNCTION '' clean_line \<noteq> None"

subsection \<open>Extraction of the singleton regions\<close>

text \<open>The first loop of the three \<^verbatim>\<open>_find_*_in_queue\<close> methods: pop until the popped
  line, stripped, is the start marker, or the queue is empty.\<close>

function find_start :: "string \<Rightarrow> string \<Rightarrow> string list \<Rightarrow> string \<times> string list" where
  "find_start start line lines =
     (if lines \<noteq> [] \<and> strip line \<noteq> start then find_start start (last lines) (butlast lines)
      else (line, lines))"
  by pat_completeness auto
termination
  by (relation "measure (\<lambda>(start, line, lines). length lines)") auto

text \<open>The second loop: pop and append until the popped line, stripped, is the end
  marker, or the queue is empty.\<close>

function append_until_end :: "string \<Rightarrow> string list \<Rightarrow> string list \<Rightarrow> string list \<times> string list" where
  "append_until_end end found lines =
     (if lines \<noteq> [] then
        (if strip (last lines) = end then (found, butlast lines)
         else append_until_end end (found @ [last lines]) (butlast lines))
      else (found, lines))"
  by pat_completeness auto
termination
  by (relation "measure (\<lambda>(end, found, lines). length lines)") auto

definition find_in_queue :: "string \<times> string \<Rightarrow> string list \<Rightarrow> string list \<times> string list" where
  "find_in_queue markers lines =
     (case markers of (start, end) \<Rightarrow>
        (case find_start start [] lines of (line, lines') \<Rightarrow> append_until_end end [] lines'))"

definition find_custom_includes_in_queue :: "string list \<Rightarrow> string list \<times> string list" where
  "find_custom_includes_in_queue lines = find_in_queue make_custom_includes_markers lines"

definition find_custom_functions_in_queue :: "string list \<Rightarrow> string list \<times> string list" where
  "find_custom_functions_in_queue lines = find_in_queue make_custom_functions_markers lines"

definition find_type_enums_in_queue :: "string list \<Rightarrow> string list \<times> string list" where
  "find_type_enums_in_queue lines = find_in_queue make_custom_type_enum_markers lines"

subsection \<open>Extraction of the per-function bodies\<close>

text \<open>
  \<^verbatim>\<open>_find_func_custom_body_in_queue\<close>.  The dictionary \<^verbatim>\<open>func_bods\<close> is an
  association list in insertion order; \<^verbatim>\<open>func_bods[func].pop()\<close> raises
  \<^verbatim>\<open>KeyError\<close> when the key is absent and \<^verbatim>\<open>IndexError\<close> when its list is
  empty, and the second \<^verbatim>\<open>lines.pop()\<close> raises \<^verbatim>\<open>IndexError\<close> on an empty queue.
\<close>

type_synonym func_bods = "(string \<times> string list) list"

definition bods_append :: "string \<Rightarrow> string \<Rightarrow> func_bods \<Rightarrow> func_bods" where
  "bods_append func line bods =
     AList.update func ((case map_of bods func of None \<Rightarrow> [] | Some xs \<Rightarrow> xs) @ [line]) bods"

function body_loop :: "string option \<Rightarrow> func_bods \<Rightarrow> string list \<Rightarrow> py_error + func_bods" where
  "body_loop func bods lines =
     (if lines = [] then Inr bods
      else
        (case func of
           Some f \<Rightarrow>
             (if strip (last lines) = indicator then
                (if butlast lines = [] then Inl IndexError
                 else if end_re (strip (last (butlast lines))) then
                   (case map_of bods f of
                      None \<Rightarrow> Inl KeyError
                    | Some xs \<Rightarrow>
                        (if xs = [] then Inl IndexError
                         else body_loop None (AList.update f (butlast xs) bods)
                                (butlast (butlast lines))))
                 else body_loop (Some f) bods (butlast (butlast lines)))
              else body_loop (Some f) (bods_append f (last lines) bods) (butlast lines))
         | None \<Rightarrow>
             (case start_re (strip (last lines)) of
                Some g \<Rightarrow> body_loop (Some g) bods (butlast lines)
              | None \<Rightarrow> body_loop None bods (butlast lines))))"
  by pat_completeness auto
termination
  by (relation "measure (\<lambda>(func, bods, lines). length lines)") auto

definition find_func_custom_body_in_queue :: "string list \<Rightarrow> py_error + func_bods" where
  "find_func_custom_body_in_queue lines = body_loop None [] lines"

subsection \<open>The scraper objects and their constructors\<close>

text \<open>The fields of \<^verbatim>\<open>Scraper\<close> and of its two subclasses (\<^verbatim>\<open>self.includes\<close> and
  \<^verbatim>\<open>self.functions\<close> are the fields \<open>includes_lines\<close> and \<open>functions_lines\<close>).\<close>

record scraper =
  filename :: "string option"
  includes_lines :: "string list"
  functions_lines :: "string list"

record c_scraper = scraper +
  func_bods :: func_bods

record h_scraper = scraper +
  type_enums :: "string list"

text \<open>
  The file system is a partial map from paths to texts; \<^verbatim>\<open>open(p)\<close> raises
  \<^verbatim>\<open>IOError\<close> exactly where the map is undefined.  The queue is built by
  \<^verbatim>\<open>c.insert(0, line)\<close> for every line read.
\<close>

type_synonym filesystem = "string \<Rightarrow> string option"

definition fill_queue :: "string list \<Rightarrow> string list" where
  "fill_queue file_lines = foldl (\<lambda>c line. line # c) [] file_lines"

text \<open>\<^verbatim>\<open>C_Scraper.__init__\<close>: a failed \<^verbatim>\<open>open\<close> is caught and reported, and the
  three extractions then run on the empty queue.\<close>

definition C_Scraper :: "filesystem \<Rightarrow> string option \<Rightarrow> py_error + c_scraper" where
  "C_Scraper fs f =
     (case f of
        None \<Rightarrow> Inr \<lparr>filename = None, includes_lines = [placeholder],
                      functions_lines = [placeholder], func_bods = []\<rparr>
      | Some p \<Rightarrow>
          (let c = (case fs p of None \<Rightarrow> [] | Some text \<Rightarrow> fill_queue (readlines text));
               r1 = find_custom_includes_in_queue c;
               r2 = find_custom_functions_in_queue (snd r1)
           in (case find_func_custom_body_in_queue (snd r2) of
                 Inl e \<Rightarrow> Inl e
               | Inr bods \<Rightarrow> Inr \<lparr>filename = Some p, includes_lines = fst r1,
                                   functions_lines = fst r2, func_bods = bods\<rparr>)))"

text \<open>\<^verbatim>\<open>H_Scraper.__init__\<close>: the handler of the failed \<^verbatim>\<open>open\<close> prints the
  name \<^verbatim>\<open>fd\<close>, which is bound nowhere, so the handler itself raises
  \<^verbatim>\<open>NameError\<close>.\<close>

definition H_Scraper :: "filesystem \<Rightarrow> string option \<Rightarrow> py_error + h_scraper" where
  "H_Scraper fs f =
     (case f of
        None \<Rightarrow> Inr \<lparr>filename = None, includes_lines = [placeholder],
                      functions_lines = [placeholder], type_enums = [placeholder]\<rparr>
      | Some p \<Rightarrow>
          (case fs p of
             None \<Rightarrow> Inl NameError
           | Some text \<Rightarrow>
               (let h = fill_queue (readlines text);
                    r1 = find_custom_includes_in_queue h;
                    r2 = find_type_enums_in_queue (snd r1);
                    r3 = find_custom_functions_in_queue (snd r2)
                in Inr \<lparr>filename = Some p, includes_lines = fst r1,
                          functions_lines = fst r3, type_enums = fst r2\<rparr>)))"

subsection \<open>The write side\<close>

definition write_region :: "string \<times> string \<Rightarrow> string list \<Rightarrow> string \<Rightarrow> string" where
  "write_region markers custom file =
     (case markers of (start, end) \<Rightarrow>
        file_write (foldl file_write (file_write file (start @ [NL])) custom) (end @ [NL, NL]))"

definition write_custom_includes :: "'a scraper_scheme \<Rightarrow> string \<Rightarrow> string" where
  "write_custom_includes self file = write_region make_custom_includes_markers (includes_lines self) file"

definition write_custom_functions :: "'a scraper_scheme \<Rightarrow> string \<Rightarrow> string" where
  "write_custom_functions self file =
     write_region make_custom_functions_markers (functions_lines self) file"

definition write_custom_type_enums :: "h_scraper \<Rightarrow> string \<Rightarrow> string" where
  "write_custom_type_enums self file =
     write_region make_custom_type_enum_markers (type_enums self) file"

text \<open>\<^verbatim>\<open>_make_custom_body_markers\<close>: the template
  \<^verbatim>\<open>"\t/*\n" "\t {0}\n" "\t * {1}\n" "\t {0}\n" "\t */\n"\<close>, formatted with the indicator
  and a marker, is a comment fence of five lines.\<close>

definition open_line :: string where
  "open_line = TAB # ''/*'' @ [NL]"

definition indicator_line :: string where
  "indicator_line = TAB # '' '' @ indicator @ [NL]"

definition marker_line :: "string \<Rightarrow> string" where
  "marker_line m = TAB # '' * '' @ m @ [NL]"

definition close_line :: string where
  "close_line = TAB # '' */'' @ [NL]"

definition fence :: "string \<Rightarrow> string list" where
  "fence m = [open_line, indicator_line, marker_line m, indicator_line, close_line]"

definition make_custom_body_markers :: "string \<Rightarrow> string \<times> string" where
  "make_custom_body_markers function =
     (concat (fence (marker_format ''START'' function)),
      concat (fence (marker_format ''STOP'' function)))"

text \<open>\<^verbatim>\<open>write_custom_body\<close>: \<^verbatim>\<open>self.func_bods.get(function, [])\<close> between the two
  fences.\<close>

definition bods_get :: "func_bods \<Rightarrow> string \<Rightarrow> string list" where
  "bods_get bods function = (case map_of bods function of None \<Rightarrow> [] | Some xs \<Rightarrow> xs)"

definition write_custom_body :: "c_scraper \<Rightarrow> string \<Rightarrow> string \<Rightarrow> string" where
  "write_custom_body self file function =
     (case make_custom_body_markers function of (start, end) \<Rightarrow>
        file_write (foldl file_write (file_write file start) (bods_get (func_bods self) function))
          end)"

subsection \<open>The two writers that call the write side\<close>

text \<open>
  \<^verbatim>\<open>create_impl_c.Writer.write\<close> writes the file header, the custom includes, the
  generated \<^verbatim>\<open>#include\<close> lines, the custom functions, and then generated text in
  which one custom body stands inside each generated function (\<^verbatim>\<open>setup\<close>,
  \<^verbatim>\<open>cleanup\<close>, and one function per table, EDD, control and operator).  The
  generated text is taken as given lines; the calls of the write side stand where
  the source has them.
\<close>

datatype piece = Generated "string list" | Custom_body string

fun write_piece :: "c_scraper \<Rightarrow> string \<Rightarrow> piece \<Rightarrow> string" where
  "write_piece scraper outfile (Generated ls) = foldl file_write outfile ls"
| "write_piece scraper outfile (Custom_body function) = write_custom_body scraper outfile function"

definition impl_c_write :: "c_scraper \<Rightarrow> string list \<Rightarrow> string list \<Rightarrow> piece list \<Rightarrow> string" where
  "impl_c_write scraper file_header includes_text pieces =
     foldl (write_piece scraper)
       (write_custom_functions scraper
          (foldl file_write
             (write_custom_includes scraper (foldl file_write [] file_header))
             includes_text))
       pieces"

text \<open>
  \<^verbatim>\<open>create_impl_h.Writer.write\<close>: header and defines, the custom includes, the
  generated includes and the \<^verbatim>\<open>extern "C"\<close> opening, the custom type enums, a comment
  header, the custom functions, and the generated declarations.
\<close>

definition impl_h_write ::
  "h_scraper \<Rightarrow> string list \<Rightarrow> string list \<Rightarrow> string list \<Rightarrow> string list \<Rightarrow> string" where
  "impl_h_write scraper defines includes_text comment_header declarations =
     foldl file_write
       (write_custom_functions scraper
          (foldl file_write
             (write_custom_type_enums scraper
                (foldl file_write
                   (write_custom_includes scraper (foldl file_write [] defines))
                   includes_text))
             comment_header))
       declarations"


section \<open>The orchestrator: \<^verbatim>\<open>tools/camp.py\<close>\<close>

text \<open>
  What one generator does when the loop of \<^verbatim>\<open>run\<close> reaches it: whether the
  directory of its file exists, whether \<^verbatim>\<open>os.makedirs\<close> raises when it does not (the
  call stands outside the \<^verbatim>\<open>try\<close>), and how \<^verbatim>\<open>open(file_path, "w")\<close> followed by
  \<^verbatim>\<open>gen.write(outfile)\<close> ends: normally, with an \<^verbatim>\<open>IOError\<close>, or with another
  exception.
\<close>

datatype write_outcome = Written | Raises_IOError | Raises_other

record generator =
  dir_exists :: bool
  makedirs_raises :: bool
  outcome :: write_outcome

text \<open>\<^verbatim>\<open>run\<close> either returns an exit code or lets an exception leave it.\<close>

datatype run_result = Return nat | Propagate

text \<open>
  The loop over the generators, with the counter \<^verbatim>\<open>failures\<close> and, for the
  properties, the number of generators whose \<^verbatim>\<open>try\<close> block was entered.  The handler
  of \<^verbatim>\<open>IOError\<close> counts and continues; the handler of \<^verbatim>\<open>Exception\<close> counts and
  re-raises.
\<close>

fun generate :: "generator list \<Rightarrow> nat \<Rightarrow> nat \<Rightarrow> run_result \<times> nat" where
  "generate [] failures attempted = (Return (if failures \<noteq> 0 then 2 else 0), attempted)"
| "generate (gen # gens) failures attempted =
     (if \<not> dir_exists gen \<and> makedirs_raises gen then (Propagate, attempted)
      else
        (case outcome gen of
           Written \<Rightarrow> generate gens failures (Suc attempted)
         | Raises_IOError \<Rightarrow> generate gens (Suc failures) (Suc attempted)
         | Raises_other \<Rightarrow> (Propagate, Suc attempted)))"

text \<open>The arguments and the environment that \<^verbatim>\<open>run\<close> tests before the loop.\<close>

record run_args =
  only_sql :: bool
  only_ch :: bool
  admfile_exists :: bool
  outdir_raises :: bool
  load_raises :: bool
  mdat_missing :: "string list"

definition run :: "run_args \<Rightarrow> generator list \<Rightarrow> generator \<Rightarrow> run_result \<times> nat" where
  "run args ch_generators sql_generator =
     (if only_sql args \<and> only_ch args then (Return 1, 0)
      else if \<not> admfile_exists args then (Return 1, 0)
      else if outdir_raises args then (Return 1, 0)
      else if load_raises args then (Return 2, 0)
      else if \<exists>mdat\<in>set [''name'', ''namespace'', ''enum'']. mdat \<in> set (mdat_missing args)
        then (Return 2, 0)
      else generate ((if \<not> only_sql args then ch_generators else []) @
                     (if \<not> only_ch args then [sql_generator] else [])) 0 0)"


section \<open>The collection registry and the naming functions\<close>

subsection \<open>\<^verbatim>\<open>campsettings.py\<close>\<close>

text \<open>The tags of the collections, in the order of their numbers 0 to 13
  (\<^verbatim>\<open>cs.CONST\<close> is written \<open>CONSTANT\<close>).\<close>

datatype coll = CONSTANT | CTRL | EDD | MACRO | OP | RPTT | SBR | TBLT | TBR | VAR | META
  | LIT | RPT | TBL

definition all_colls :: "coll list" where
  "all_colls = [CONSTANT, CTRL, EDD, MACRO, OP, RPTT, SBR, TBLT, TBR, VAR, META, LIT, RPT, TBL]"

text \<open>The dictionary \<^verbatim>\<open>collections\<close>: for each tag the dictionary of its fields.  The
  last three entries have no \<^verbatim>\<open>lname\<close>, and two of them no \<^verbatim>\<open>sname\<close>.\<close>

fun collections :: "coll \<Rightarrow> (string \<times> string) list" where
  "collections CONSTANT = [(''sname'', ''cnst''), (''lname'', ''Const''), (''ari_type'', ''0''),
     (''amp_type'', ''cnst''), (''adm_idx'', ''Const'')]"
| "collections CTRL = [(''sname'', ''ctrl''), (''lname'', ''Ctrl''), (''ari_type'', ''1''),
     (''amp_type'', ''ctrl''), (''adm_idx'', ''Ctrl'')]"
| "collections EDD = [(''sname'', ''edd''), (''lname'', ''Edd''), (''ari_type'', ''2''),
     (''amp_type'', ''edd''), (''adm_idx'', ''Edd'')]"
| "collections MACRO = [(''sname'', ''mac''), (''lname'', ''Mac''), (''ari_type'', ''4''),
     (''amp_type'', ''mac''), (''adm_idx'', ''Mac'')]"
| "collections OP = [(''sname'', ''op''), (''lname'', ''Oper''), (''ari_type'', ''5''),
     (''amp_type'', ''Oper''), (''adm_idx'', ''Oper'')]"
| "collections RPTT = [(''sname'', ''rpttpl''), (''lname'', ''Rptt''), (''ari_type'', ''7''),
     (''amp_type'', ''rpttpl''), (''adm_idx'', ''Rptt'')]"
| "collections SBR = [(''sname'', ''sbr''), (''lname'', ''Sbr''), (''ari_type'', ''8''),
     (''amp_type'', ''sbr''), (''adm_idx'', ''Sbr'')]"
| "collections TBLT = [(''sname'', ''tblt''), (''lname'', ''Tblt''), (''ari_type'', ''a''),
     (''amp_type'', ''tblt''), (''adm_idx'', ''Tblt'')]"
| "collections TBR = [(''sname'', ''tbr''), (''lname'', ''Tbr''), (''ari_type'', ''b''),
     (''amp_type'', ''tbr''), (''adm_idx'', ''Tbr'')]"
| "collections VAR = [(''sname'', ''var''), (''lname'', ''Var''), (''ari_type'', ''c''),
     (''amp_type'', ''var''), (''adm_idx'', ''Var'')]"
| "collections META = [(''sname'', ''meta''), (''lname'', ''Mdat''), (''ari_type'', ''0''),
     (''amp_type'', ''cnst''), (''adm_idx'', ''Meta'')]"
| "collections LIT = [(''ari_type'', ''3'')]"
| "collections RPT = [(''ari_type'', ''6'')]"
| "collections TBL = [(''sname'', ''tbl''), (''ari_type'', ''9'')]"

text \<open>A subscript \<^verbatim>\<open>collections[coll][key]\<close> raises \<^verbatim>\<open>KeyError\<close> on a missing key.\<close>

definition coll_field :: "coll \<Rightarrow> string \<Rightarrow> py_error + string" where
  "coll_field c key = (case map_of (collections c) key of None \<Rightarrow> Inl KeyError | Some v \<Rightarrow> Inr v)"

definition ari_type_enum :: "coll \<Rightarrow> py_error + string" where
  "ari_type_enum c = coll_field c ''ari_type''"

definition get_sname :: "coll \<Rightarrow> py_error + string" where
  "get_sname c = coll_field c ''sname''"

definition get_lname :: "coll \<Rightarrow> py_error + string" where
  "get_lname c = coll_field c ''lname''"

definition get_adm_idx :: "coll \<Rightarrow> py_error + string" where
  "get_adm_idx c =
     (case coll_field c ''adm_idx'' of Inl e \<Rightarrow> Inl e | Inr v \<Rightarrow> Inr (''ADM_'' @ upper v @ ''_IDX''))"

text \<open>\<^verbatim>\<open>name_get_coll\<close> walks the dictionary in insertion order and reads \<^verbatim>\<open>lname\<close>
  first, so on reaching an entry without \<^verbatim>\<open>lname\<close> it raises \<^verbatim>\<open>KeyError\<close>; falling off
  the end would return \<^verbatim>\<open>None\<close>.\<close>

fun name_get_coll_from :: "coll list \<Rightarrow> string \<Rightarrow> py_error + coll option" where
  "name_get_coll_from [] name = Inr None"
| "name_get_coll_from (key # keys) name =
     (case coll_field key ''lname'' of
        Inl e \<Rightarrow> Inl e
      | Inr l \<Rightarrow>
          (if upper l = upper name then Inr (Some key)
           else (case coll_field key ''sname'' of
                   Inl e \<Rightarrow> Inl e
                 | Inr s \<Rightarrow> (if upper s = upper name then Inr (Some key)
                              else name_get_coll_from keys name))))"

definition name_get_coll :: "string \<Rightarrow> py_error + coll option" where
  "name_get_coll name = name_get_coll_from all_colls name"

subsection \<open>The object graph of an ADM\<close>

text \<open>
  The objects come from the \<^verbatim>\<open>ace\<close> library.  One record stands for an object of any
  kind, with the attributes the generators read: a missing parameter list, definition
  list or action list is the empty list (the generators test them before use), and a
  description may be \<^verbatim>\<open>None\<close>.  A parameter, operand or column has a position, a name
  and a type.
\<close>

record parm =
  position :: nat
  pname :: string
  ptype :: string

text \<open>An actual parameter of a reference.\<close>

record actual_parm =
  ap_position :: nat
  ap_value :: string

text \<open>
  A reference to an object (an entry of an expression, of a report template or of a
  macro): namespace, name \<^verbatim>\<open>coll.name(...)\<close>, position, actual parameters; and what the
  \<^verbatim>\<open>ace\<close> library answers for it: the parameters that \<^verbatim>\<open>get_ident(item).strip_name()\<close>
  returns, and for \<^verbatim>\<open>find_ident\<close> either nothing or the parameter types of the object
  found.
\<close>

record ari =
  ns :: string
  nm :: string
  item_position :: nat
  ap :: "actual_parm list"
  ident_parms :: "string list"
  found_ref :: "string list option"

record adm_obj =
  name :: string
  description :: "string option"
  enum :: nat
  otype :: string
  ovalue :: string
  result_type :: string
  parmspec :: "parm list"
  in_type :: "parm list"
  postfix :: "ari list"
  columns :: "parm list"
  rptt_definition :: "ari list"
  action :: "ari list"

record adm =
  norm_name :: string
  norm_namespace :: string
  adm_ns :: string
  adm_enum :: nat
  mdat :: "adm_obj list"
  const :: "adm_obj list"
  edd :: "adm_obj list"
  oper :: "adm_obj list"
  var :: "adm_obj list"
  tblt :: "adm_obj list"
  rptt :: "adm_obj list"
  ctrl :: "adm_obj list"
  mac :: "adm_obj list"

text \<open>\<^verbatim>\<open>admset.get_child(adm, models.Mdat, name)\<close>: the metadata item of that name, or
  \<^verbatim>\<open>None\<close>.\<close>

definition get_child :: "adm \<Rightarrow> string \<Rightarrow> adm_obj option" where
  "get_child a n = find (\<lambda>obj. name obj = n) (mdat a)"

subsection \<open>\<^verbatim>\<open>camputil.py\<close>\<close>

definition make_ari_name_from_str :: "string \<Rightarrow> coll \<Rightarrow> string \<Rightarrow> py_error + string" where
  "make_ari_name_from_str nsname c i_name =
     (case get_sname c of
        Inl e \<Rightarrow> Inl e
      | Inr s \<Rightarrow> Inr (upper (replace_char (CHR ''/'') ''_'' nsname) @ ''_'' @ upper s @ ''_'' @
                        upper i_name))"

definition make_ari_name :: "string \<Rightarrow> coll \<Rightarrow> adm_obj \<Rightarrow> py_error + string" where
  "make_ari_name nsname c item = make_ari_name_from_str nsname c (name item)"

definition make_enum_name_from_str :: "string \<Rightarrow> string" where
  "make_enum_name_from_str n = ''ADM_ENUM_'' @ upper n"

text \<open>\<^verbatim>\<open>ari_get_names\<close>: \<^verbatim>\<open>coll, name = jari.nm.split('.')\<close> raises \<^verbatim>\<open>ValueError\<close>
  unless the name has exactly one dot.\<close>

definition ari_get_names :: "ari \<Rightarrow> py_error + (string \<times> coll option \<times> string)" where
  "ari_get_names jari =
     (if length (filter (\<lambda>c. c = CHR ''.'') (nm jari)) \<noteq> 1 then Inl ValueError
      else
        (case name_get_coll (takeWhile (\<lambda>c. c \<noteq> CHR ''.'') (nm jari)) of
           Inl e \<Rightarrow> Inl e
         | Inr c \<Rightarrow>
             Inr (ns jari, c,
                  takeWhile (\<lambda>c. c \<noteq> CHR ''('')
                    (drop 1 (dropWhile (\<lambda>c. c \<noteq> CHR ''.'') (nm jari))))))"


section \<open>The SQL writer: \<^verbatim>\<open>create_sql.py\<close>\<close>

subsection \<open>The writer object and the way its methods run\<close>

datatype dialect = mysql | pgsql

text \<open>
  The fields of the writer, and \<open>body\<close>: the lines that the per-object methods have
  produced so far (each method collects them in a local list \<^verbatim>\<open>lines\<close>, and
  \<^verbatim>\<open>write\<close> appends the lists in the order of the calls).
\<close>

record sql_writer =
  the_dialect :: dialect
  var_prefix :: string
  vars_def :: "string set"
  vars_use :: "string set"
  sql_ns :: string
  body :: "string list"

text \<open>A method either raises or returns a value and leaves the writer changed.\<close>

type_synonym 'a gen = "sql_writer \<Rightarrow> py_error + ('a \<times> sql_writer)"

definition gen_return :: "'a \<Rightarrow> 'a gen" where
  "gen_return x = (\<lambda>w. Inr (x, w))"

definition gen_raise :: "py_error \<Rightarrow> 'a gen" where
  "gen_raise e = (\<lambda>w. Inl e)"

definition gen_bind :: "'a gen \<Rightarrow> ('a \<Rightarrow> 'b gen) \<Rightarrow> 'b gen" where
  "gen_bind m f = (\<lambda>w. case m w of Inl e \<Rightarrow> Inl e | Inr (x, w') \<Rightarrow> f x w')"

definition gen_seq :: "'a gen \<Rightarrow> 'b gen \<Rightarrow> 'b gen" where
  "gen_seq m k = gen_bind m (\<lambda>x. k)"

text \<open>The value of an expression that may raise.\<close>

definition gen_of :: "py_error + 'a \<Rightarrow> 'a gen" where
  "gen_of r = (case r of Inl e \<Rightarrow> gen_raise e | Inr x \<Rightarrow> gen_return x)"

text \<open>\<^verbatim>\<open>lines += [...]\<close>.\<close>

definition emit :: "string list \<Rightarrow> unit gen" where
  "emit ls = (\<lambda>w. Inr ((), w\<lparr>body := body w @ ls\<rparr>))"

text \<open>A \<^verbatim>\<open>for\<close> loop over a list.\<close>

fun for_each :: "('a \<Rightarrow> unit gen) \<Rightarrow> 'a list \<Rightarrow> unit gen" where
  "for_each f [] = gen_return ()"
| "for_each f (x # xs) = gen_seq (f x) (for_each f xs)"

text \<open>A loop that also collects one value per element.\<close>

fun for_collect :: "('a \<Rightarrow> 'b gen) \<Rightarrow> 'a list \<Rightarrow> 'b list gen" where
  "for_collect f [] = gen_return []"
| "for_collect f (x # xs) =
     gen_bind (f x) (\<lambda>y. gen_bind (for_collect f xs) (\<lambda>ys. gen_return (y # ys)))"

subsection \<open>Variable names\<close>

text \<open>\<^verbatim>\<open>_var_name(name, define)\<close>, with \<^verbatim>\<open>define\<close> one of \<^verbatim>\<open>True\<close>, \<^verbatim>\<open>False\<close> and
  \<^verbatim>\<open>None\<close>.  It raises nothing.\<close>

definition var_name :: "string \<Rightarrow> bool option \<Rightarrow> string gen" where
  "var_name n define =
     (\<lambda>w. let n' = casefold n in
        Inr (var_prefix w @ n',
             (case define of
                None \<Rightarrow> w
              | Some True \<Rightarrow> w\<lparr>vars_def := insert n' (vars_def w)\<rparr>
              | Some False \<Rightarrow> w\<lparr>vars_use := insert n' (vars_use w)\<rparr>)))"

text \<open>A call whose result is not used.\<close>

definition var_name_unused :: "string \<Rightarrow> bool option \<Rightarrow> unit gen" where
  "var_name_unused n define = gen_seq (var_name n define) (gen_return ())"

text \<open>\<^verbatim>\<open>__init__\<close>: the prefix of the dialect, empty sets, and the variable of the
  namespace, which is defined here.\<close>

definition sql_init :: "adm \<Rightarrow> dialect \<Rightarrow> py_error + sql_writer" where
  "sql_init a d =
     (let w = \<lparr>the_dialect = d, var_prefix = (if d = mysql then ''@'' else []),
               vars_def = {}, vars_use = {}, sql_ns = [], body = []\<rparr>;
          hl_ns = lower (takeWhile (\<lambda>c. c \<noteq> CHR ''/'') (norm_namespace a))
      in (case var_name (hl_ns @ ''_namespace_id'') (Some True) w of
            Inl e \<Rightarrow> Inl e
          | Inr (v, w') \<Rightarrow> Inr (w'\<lparr>sql_ns := v\<rparr>)))"

definition escape_description_sql :: "string option \<Rightarrow> string option" where
  "escape_description_sql val =
     (case val of None \<Rightarrow> None | Some v \<Rightarrow> Some (replace_char SQ [SQ, SQ] v))"

text \<open>\<^verbatim>\<open>_make_ari\<close>.\<close>

definition make_ari :: "adm \<Rightarrow> coll \<Rightarrow> adm_obj \<Rightarrow> string gen" where
  "make_ari a c item =
     gen_bind (gen_of (make_ari_name (norm_namespace a) c item)) (\<lambda>x. gen_return (lower x))"

text \<open>\<^verbatim>\<open>make_sql_ids\<close> (the length of the names is only logged).\<close>

definition make_sql_ids :: "string \<Rightarrow> bool option \<Rightarrow> (string \<times> string \<times> string) gen" where
  "make_sql_ids ari_text define =
     gen_bind (var_name ari_text define) (\<lambda>obj_id.
     gen_bind (var_name (ari_text @ ''_did'') define) (\<lambda>def_id.
     gen_bind (var_name (ari_text @ ''_aid'') define) (\<lambda>act_id.
     gen_return (obj_id, def_id, act_id))))"

subsection \<open>Templates\<close>

text \<open>
  A template is a function of the values that its fields receive.  The templates that
  Python formats in two steps are composed here; a value that goes in at the first step
  (the variable of the namespace, a fixed variable name) holds no brace.
\<close>

text \<open>\<^verbatim>\<open>create_insert_obj_metadata_template(obj_type)\<close>, formatted with a name and an
  id; the type number is \<^verbatim>\<open>str(int(ari_type, 16))\<close>.\<close>

definition hex_digit_value :: "string \<Rightarrow> py_error + nat" where
  "hex_digit_value s =
     (case map_of [(''0'', 0), (''1'', 1), (''2'', 2), (''3'', 3), (''4'', 4), (''5'', 5),
                   (''6'', 6), (''7'', 7), (''8'', 8), (''9'', 9), (''a'', 10), (''b'', 11),
                   (''c'', 12), (''d'', 13), (''e'', 14), (''f'', 15)] s of
        None \<Rightarrow> Inl ValueError | Some n \<Rightarrow> Inr n)"

definition create_insert_obj_metadata_template ::
  "coll \<Rightarrow> (string \<Rightarrow> string \<Rightarrow> string) gen" where
  "create_insert_obj_metadata_template obj_type =
     gen_bind (gen_of (ari_type_enum obj_type)) (\<lambda>t.
     gen_bind (gen_of (hex_digit_value t)) (\<lambda>n.
     (\<lambda>w. Inr (\<lambda>obj_name obj_id.
                  ''CALL SP__insert_obj_metadata('' @ str_nat n @ '', '' @ [SQ] @ obj_name @ ''', '' @
                  sql_ns w @ '', '' @ obj_id @ '');'', w))))"

text \<open>\<^verbatim>\<open>create_insert_formal_parmspec_templates(desc_template)\<close>: the first template takes
  a number, the text that fills the description and an id; the second an id, a position,
  a name and a type.\<close>

definition create_insert_formal_parmspec_templates ::
  "(string \<Rightarrow> string) \<Rightarrow>
     ((string \<Rightarrow> string \<Rightarrow> string \<Rightarrow> string) \<times>
      (string \<Rightarrow> string \<Rightarrow> string \<Rightarrow> string \<Rightarrow> string)) gen" where
  "create_insert_formal_parmspec_templates desc_template =
     gen_bind (var_name ''r_fp_ent'' (Some True)) (\<lambda>r_fp_ent.
     gen_return
       (\<lambda>num desc_arg fp_id.
          ''CALL SP__insert_formal_parmspec('' @ num @ '', '' @ [SQ] @ desc_template desc_arg @
          ''', '' @ fp_id @ '');'',
        \<lambda>fp_id enum_text parm_name parm_type.
          ''CALL SP__insert_formal_parmspec_entry('' @ fp_id @ '', '' @ enum_text @ '', '' @ [SQ] @
          parm_name @ ''', '' @ [SQ] @ parm_type @ ''', null, '' @ r_fp_ent @ '');''))"

text \<open>\<^verbatim>\<open>create_insert_tnvc_templates(obj_type, num_entries)\<close>.\<close>

definition create_insert_tnvc_templates ::
  "coll \<Rightarrow> nat \<Rightarrow>
     ((string \<Rightarrow> string) \<times> (string \<Rightarrow> string \<Rightarrow> string \<Rightarrow> string \<Rightarrow> string) \<times>
      (string \<Rightarrow> string \<Rightarrow> string)) gen" where
  "create_insert_tnvc_templates obj_type num_entries =
     gen_bind (gen_of (get_sname obj_type)) (\<lambda>s.
     gen_bind (var_name (lower s @ ''_tnvc_id'') (Some True)) (\<lambda>tnvc_var.
     gen_bind (var_name ''tnvc_entry'' None) (\<lambda>entry1.
     gen_bind (var_name ''tnvc_entry'' None) (\<lambda>entry2.
     gen_seq
       (for_each (\<lambda>idx. var_name_unused (''tnvc_entry'' @ str_nat (idx + 1)) (Some True))
          [0..<num_entries])
       (gen_return
          (\<lambda>desc. ''CALL SP__insert_tnvc_collection('' @ [SQ] @ desc @ ''', '' @ tnvc_var @ '');'',
           \<lambda>t a b c. ''CALL SP__insert_tnvc_'' @ t @ ''_entry('' @ tnvc_var @ '', '' @ a @
                      '', '' @ b @ '', null, '' @ entry1 @ c @ '');'',
           \<lambda>a c. ''CALL SP__insert_tnvc_unk_entry('' @ tnvc_var @ '', '' @ a @ '', null, '' @
                  entry2 @ c @ '');''))))))"

text \<open>\<^verbatim>\<open>create_insert_ac_id_template(obj_type, description_format)\<close>, formatted with a
  number and the text that fills the description.\<close>

definition create_insert_ac_id_template ::
  "coll \<Rightarrow> (string \<Rightarrow> string) \<Rightarrow> (string \<Rightarrow> string \<Rightarrow> string) gen" where
  "create_insert_ac_id_template obj_type description_format =
     gen_bind (gen_of (get_lname obj_type)) (\<lambda>l.
     gen_bind (var_name (lower l @ ''_ac_id'') (Some True)) (\<lambda>obj_id.
     gen_return
       (\<lambda>num desc_arg.
          ''CALL SP__insert_ac_id('' @ num @ '', '' @ [SQ] @ description_format desc_arg @ ''', '' @
          obj_id @ '');'')))"

text \<open>\<^verbatim>\<open>make_definition_ids(item)\<close>: the three ids of a referenced object and, when it
  lies in another namespace, the statement that selects it; \<^verbatim>\<open>name.split('_', 1)[1]\<close>
  raises \<^verbatim>\<open>IndexError\<close> when the name has no underscore.\<close>

definition definition_name :: "string \<Rightarrow> string" where
  "definition_name n =
     (let n1 = (if take 5 (casefold n) = ''mdat.'' then ''meta'' @ drop 4 n
                else if take 5 (casefold n) = ''oper.'' then ''op'' @ drop 4 n
                else n)
      in takeWhile (\<lambda>c. c \<noteq> CHR ''('') (replace_char (CHR ''.'') ''_'' n1))"

definition make_definition_ids :: "adm \<Rightarrow> ari \<Rightarrow> (string \<times> string \<times> string \<times> string) gen" where
  "make_definition_ids a item =
     (let n = definition_name (nm item);
          ari_str = replace_char (CHR ''/'') ''_'' (ns item @ ''_'' @ n)
      in gen_bind (make_sql_ids ari_str (Some True)) (\<lambda>(fx_obj_id, pfx_def_id, pfx_act_id).
           if ns item \<noteq> adm_ns a then
             (if CHR ''_'' \<notin> set n then gen_raise IndexError
              else gen_return (fx_obj_id, pfx_def_id, pfx_act_id,
                     pfx_act_id @ '' = (select obj_id FROM public.vw_ari_union WHERE obj_name = '' @ [SQ] @
                     drop 1 (dropWhile (\<lambda>c. c \<noteq> CHR ''_'') n) @
                     ''' and adm_name = (select adm_name from public.vw_namespace where name_string = '' @ [SQ] @
                     ns item @ ''')  and actual = true);''))
           else gen_return (fx_obj_id, pfx_def_id, pfx_act_id, [])))"

definition make_fp_id :: "string \<Rightarrow> string" where
  "make_fp_id obj_id = obj_id @ ''_fp''"


subsection \<open>The head and the tail of the script\<close>

text \<open>\<^verbatim>\<open>write_setup\<close>; the date of the day is a parameter.\<close>

definition write_setup :: "adm \<Rightarrow> string \<Rightarrow> string list" where
  "write_setup a today =
     [''-- -------------------------------------------------------------------'',
      ''--'',
      ''-- File Name: adm_'' @ norm_name a @ ''.sql'',
      ''--'',
      ''-- Description: TODO'',
      ''--'',
      ''-- Notes: TODO'',
      ''--'',
      ''-- Assumptions: TODO'',
      ''--'',
      ''-- Modification History:'',
      ''-- YYYY-MM-DD    AUTHOR          DESCRIPTION'',
      ''-- ----------    --------------  ------------------------------------'',
      ''-- '' @ today @ ''    AUTO            Auto-generated SQL file'',
      ''--'',
      ''-- -------------------------------------------------------------------'',
      [],
      ''-- ADM: '' @ [SQ] @ norm_namespace a @ [SQ],
      []]"

text \<open>\<^verbatim>\<open>body_pre\<close>: the finalization step.  It raises when a variable was used and
  not defined, and otherwise returns the declarations.\<close>

definition body_pre :: "adm \<Rightarrow> sql_writer \<Rightarrow> py_error + string list" where
  "body_pre a w =
     (let undef = vars_use w - vars_def w in
      if undef \<noteq> {} then Inl (RuntimeError_undefined undef)
      else Inr
        (case the_dialect w of
           mysql \<Rightarrow> [[], ''use amp_core;'', [], ''SET @adm_enum = '' @ str_nat (adm_enum a) @ '';'']
         | pgsql \<Rightarrow>
             [''DO'', ''$do$'', ''DECLARE adm_enum INTEGER := '' @ str_nat (adm_enum a) @ '';''] @
             map (\<lambda>n. ''DECLARE '' @ n @ '' INTEGER;'') (sorted_list_of_set (vars_def w)) @
             [''BEGIN'', []]))"

definition body_post :: "sql_writer \<Rightarrow> string list" where
  "body_post w = (case the_dialect w of pgsql \<Rightarrow> [[], ''END'', ''$do$''] | mysql \<Rightarrow> [])"

subsection \<open>The statements of each kind\<close>

text \<open>\<^verbatim>\<open>write_metadata_function\<close>.\<close>

definition val_or_none :: "adm_obj option \<Rightarrow> (adm_obj \<Rightarrow> string option) \<Rightarrow> string option" where
  "val_or_none obj attr = (case obj of None \<Rightarrow> Some [] | Some x \<Rightarrow> attr x)"

definition write_metadata_function :: "adm \<Rightarrow> unit gen" where
  "write_metadata_function a =
     (let name_v = fmt (val_or_none (get_child a ''name'') (\<lambda>x. Some (ovalue x)));
          ns_v = fmt (val_or_none (get_child a ''namespace'') (\<lambda>x. Some (ovalue x)));
          version = fmt (val_or_none (get_child a ''version'') (\<lambda>x. Some (ovalue x)));
          org = fmt (val_or_none (get_child a ''organization'') (\<lambda>x. Some (ovalue x)));
          desc = fmt (escape_description_sql (val_or_none (get_child a ''namespace'') description))
      in gen_bind (var_name ''adm_enum'' None) (\<lambda>adm_enum_var.
         (\<lambda>w. emit
            [[],
             ''CALL SP__insert_adm_defined_namespace('' @ [SQ] @ org @ ''', '' @ [SQ] @ ns_v @ ''', '' @ [SQ] @
             version @ ''', '' @ [SQ] @ name_v @ ''', '' @ adm_enum_var @ '', NULL, '' @ [SQ] @ desc @
             ''', '' @ sql_ns w @ '');''] w)))"

text \<open>\<^verbatim>\<open>write_edd_functions\<close>.\<close>

definition edd_formal_def_template :: "string \<Rightarrow> string \<Rightarrow> string \<Rightarrow> string \<Rightarrow> string \<Rightarrow> string" where
  "edd_formal_def_template obj_id desc fp etype def_id =
     ''CALL SP__insert_edd_formal_definition('' @ obj_id @ '', '' @ [SQ] @ desc @ ''', '' @ fp @
     '', '' @ [SQ] @ etype @ ''', '' @ def_id @ '');''"

definition edd_actual_def_template :: "string \<Rightarrow> string \<Rightarrow> string \<Rightarrow> string" where
  "edd_actual_def_template obj_id n act_id =
     ''CALL SP__insert_edd_actual_definition('' @ obj_id @ '', 'The singleton value for '' @ n @
     ''', NULL, '' @ act_id @ '');''"

definition write_edd_functions :: "adm \<Rightarrow> unit gen" where
  "write_edd_functions a =
     gen_seq (emit [[], [], ''-- EDD'', []])
    (gen_bind (create_insert_obj_metadata_template EDD) (\<lambda>insert_obj_template.
     gen_bind (create_insert_formal_parmspec_templates (\<lambda>x. ''parms for '' @ x))
       (\<lambda>(insert_formal_parmspec_template, insert_entry_template).
     for_each
       (\<lambda>obj.
          gen_bind (make_ari a EDD obj) (\<lambda>ari_text.
          gen_bind (make_sql_ids ari_text (Some True)) (\<lambda>(edd_obj_id, edd_def_id, edd_act_id).
          (let edd_fp_id = make_fp_id edd_obj_id;
               desc = fmt (escape_description_sql (description obj));
               parms = parmspec obj
           in gen_seq (emit [[], insert_obj_template (name obj) edd_obj_id])
             (gen_seq
                (if parms \<noteq> [] then
                   gen_seq (var_name_unused edd_fp_id (Some True))
                  (gen_seq
                     (emit [insert_formal_parmspec_template (str_nat (length parms)) (name obj)
                              edd_fp_id])
                     (for_each
                        (\<lambda>p. emit [insert_entry_template edd_fp_id (str_nat (position p + 1))
                                      (pname p) (ptype p)])
                        parms))
                 else gen_return ())
                (if parms = [] then
                   gen_seq (var_name_unused edd_act_id (Some True))
                     (emit [edd_formal_def_template edd_obj_id desc ''NULL'' (otype obj) edd_def_id,
                            edd_actual_def_template edd_obj_id (name obj) edd_act_id])
                 else emit [edd_formal_def_template edd_obj_id desc edd_fp_id (otype obj)
                              edd_def_id]))))))
       (edd a))))"

text \<open>\<^verbatim>\<open>write_oper_functions\<close>.\<close>

definition oper_actual_def_template ::
  "string \<Rightarrow> string \<Rightarrow> string \<Rightarrow> string \<Rightarrow> string \<Rightarrow> string \<Rightarrow> string" where
  "oper_actual_def_template tnvc obj_id desc rtype num act_id =
     ''CALL SP__insert_operator_actual_definition('' @ obj_id @ '', '' @ [SQ] @ desc @ ''', '' @ [SQ] @
     rtype @ ''', '' @ num @ '', '' @ tnvc @ '', '' @ act_id @ '');''"

definition write_oper_functions :: "adm \<Rightarrow> unit gen" where
  "write_oper_functions a =
     gen_seq (emit [[], [], ''-- OPER''])
    (gen_bind (create_insert_obj_metadata_template OP) (\<lambda>oper_template.
     gen_bind (var_name ''op_tnvc_id'' (Some True)) (\<lambda>op_tnvc_id.
     for_each
       (\<lambda>obj.
          gen_bind (make_ari a OP obj) (\<lambda>ari_text.
          gen_bind (make_sql_ids ari_text (Some True)) (\<lambda>(oper_obj_id, oper_def_id, oper_act_id).
          gen_bind (create_insert_tnvc_templates OP (length (in_type obj)))
            (\<lambda>(tnvc_collection_template, tnvc_entry_template, tnvc_unk_entry_template).
          (let oper_desc = fmt (escape_description_sql (description obj));
               actual = oper_actual_def_template op_tnvc_id oper_obj_id oper_desc
                          (result_type obj) (str_nat (length (in_type obj))) oper_act_id
           in gen_seq
                (emit [[], oper_template (name obj) oper_obj_id,
                       tnvc_collection_template (''operands for '' @ name obj)])
               (gen_seq
                  (for_each
                     (\<lambda>p. if lower (ptype p) = ''unk''
                          then emit [tnvc_unk_entry_template (str_nat (position p + 1))
                                       (str_nat (position p + 1))]
                          else emit [tnvc_entry_template (lower (ptype p))
                                       (str_nat (position p + 1)) ''null''
                                       (str_nat (position p + 1))])
                     (in_type obj))
                  (if upper (result_type obj) = ''UNK'' then emit [''-- '' @ actual]
                   else emit [actual])))))))
       (oper a))))"

text \<open>\<^verbatim>\<open>write_var_functions\<close>.\<close>

definition write_var_functions :: "adm \<Rightarrow> unit gen" where
  "write_var_functions a =
     gen_seq (emit [[], [], ''-- VAR''])
    (gen_bind (create_insert_obj_metadata_template VAR) (\<lambda>var_template.
     gen_bind (create_insert_ac_id_template VAR (\<lambda>x. x)) (\<lambda>insert_ac_id_template.
     gen_bind (var_name ''var_ac_id'' (Some True)) (\<lambda>var_ac_id1.
     gen_bind (var_name ''r_ac_entry_id_'' None) (\<lambda>r_ac_entry_id.
     gen_bind (var_name ''var_ac_id'' (Some True)) (\<lambda>var_ac_id2.
     for_each
       (\<lambda>obj.
          gen_bind (make_ari a VAR obj) (\<lambda>ari_text.
          gen_bind (make_sql_ids ari_text (Some True)) (\<lambda>(var_id, var_def_id, var_act_id).
          gen_seq
            (emit [[], ''-- create ac for expression'', var_template (name obj) var_id,
                   insert_ac_id_template (str_nat (length (postfix obj)))
                     (''ac for the expression used by '' @ var_id)])
           (gen_seq
              (for_each
                 (\<lambda>item.
                    gen_bind (make_definition_ids a item)
                      (\<lambda>(pfx_obj_id, pfx_def_id, pfx_act_id, line).
                    gen_seq (emit [line])
                   (gen_seq
                      (emit [''CALL SP__insert_ac_actual_entry('' @ var_ac_id1 @ '', '' @
                             pfx_act_id @ '', '' @ str_nat (item_position item + 1) @ '', '' @
                             r_ac_entry_id @ str_nat (item_position item + 1) @ '' );''])
                      (var_name_unused
                         (''r_ac_entry_id_'' @ str_nat (item_position item + 1)) (Some True)))))
                 (postfix obj))
              (emit [''CALL SP__insert_variable_definition('' @ var_id @ '', '' @ [SQ] @
                     fmt (escape_description_sql (description obj)) @ ''', 20, '' @
                     var_ac_id2 @ '', '' @ var_act_id @ '');''])))))
       (var a)))))))"

text \<open>\<^verbatim>\<open>write_tblt_functions\<close>.\<close>

definition write_tblt_functions :: "adm \<Rightarrow> unit gen" where
  "write_tblt_functions a =
     gen_seq (emit [[], [], ''-- TBLT''])
    (gen_bind (create_insert_obj_metadata_template TBLT) (\<lambda>insert_obj_template.
     gen_bind (var_name ''tbl_tnvc_id'' (Some True)) (\<lambda>tbl_tnvc_id.
     for_each
       (\<lambda>obj.
          gen_bind (make_ari a TBLT obj) (\<lambda>ari_text.
          gen_bind (make_sql_ids ari_text (Some True)) (\<lambda>(tblt_id, tblt_def_id, tblt_act_id).
          gen_bind (create_insert_tnvc_templates TBL (length (columns obj)))
            (\<lambda>(add_tnvc_coll_template, insert_column_template, unused).
          gen_seq
            (emit [[], insert_obj_template (name obj) tblt_id,
                   add_tnvc_coll_template (''columns for the '' @ name obj @ '' table'')])
           (gen_seq
              (for_each
                 (\<lambda>col. emit [insert_column_template (lower (ptype col))
                                 (str_nat (position col + 1)) ([SQ] @ pname col @ [SQ])
                                 (str_nat (position col + 1))])
                 (columns obj))
              (emit [''CALL SP__insert_table_template_actual_definition('' @ tblt_id @ '', '' @ [SQ] @
                     fmt (escape_description_sql (description obj)) @ ''', '' @ tbl_tnvc_id @
                     '', '' @ tblt_def_id @ '');'']))))))
       (tblt a))))"


text \<open>
  \<^verbatim>\<open>handle_report_fp_ap(item, lines, report_id)\<close>: the statements for one entry of a
  report template; its result is the id under which the entry is listed.  It raises
  \<^verbatim>\<open>RuntimeError\<close> when the reference is not found, and \<^verbatim>\<open>types[i]\<close> raises
  \<^verbatim>\<open>IndexError\<close> beyond the parameters of the object found.
\<close>

definition list_index :: "'a list \<Rightarrow> nat \<Rightarrow> py_error + 'a" where
  "list_index xs i = (if i < length xs then Inr (xs ! i) else Inl IndexError)"

definition sname_of :: "coll option \<Rightarrow> py_error + string" where
  "sname_of c = (case c of None \<Rightarrow> Inl KeyError | Some k \<Rightarrow> get_sname k)"

definition insert_actual_parmspec_template :: "string \<Rightarrow> string \<Rightarrow> string \<Rightarrow> string \<Rightarrow> string" where
  "insert_actual_parmspec_template ap_spec_id fp_id enum_text desc =
     ''CALL SP__insert_actual_parmspec('' @ fp_id @ '', '' @ enum_text @ '', '' @ [SQ] @ desc @
     ''', '' @ ap_spec_id @ '');''"

definition insert_literal_actual_def_template :: "string \<Rightarrow> string \<Rightarrow> string \<Rightarrow> string \<Rightarrow> string" where
  "insert_literal_actual_def_template meta_id p p_type actual_id =
     ''CALL SP__insert_literal_actual_definition('' @ meta_id @ '', 'literal value '' @ p @
     ''', '' @ [SQ] @ p_type @ ''', '' @ [SQ] @ p @ ''', '' @ actual_id @ '');''"

definition insert_actual_parms_obj_template :: "string \<Rightarrow> string \<Rightarrow> string \<Rightarrow> string \<Rightarrow> string" where
  "insert_actual_parms_obj_template ap_spec_id enum_text p_type actual_id =
     ''CALL SP__insert_actual_parms_object('' @ ap_spec_id @ '', '' @ enum_text @ '', '' @ [SQ] @
     p_type @ ''', '' @ actual_id @ '');''"

definition insert_coll_actual_def_template :: "string \<Rightarrow> string \<Rightarrow> string \<Rightarrow> string \<Rightarrow> string" where
  "insert_coll_actual_def_template ap_spec_id coll_text obj_id aid =
     ''CALL SP__insert_'' @ coll_text @ ''_actual_definition('' @ obj_id @ '', NULL, '' @
     ap_spec_id @ '', '' @ aid @ '');''"

definition insert_actual_name_template :: "string \<Rightarrow> string \<Rightarrow> string \<Rightarrow> string \<Rightarrow> string" where
  "insert_actual_name_template ap_spec_id enum_text a_type fp =
     ''CALL SP__insert_actual_parms_names('' @ ap_spec_id @ '', '' @ enum_text @ '', '' @ [SQ] @
     a_type @ ''', '' @ fp @ '');''"

definition handle_report_fp_ap :: "adm \<Rightarrow> ari \<Rightarrow> string \<Rightarrow> string gen" where
  "handle_report_fp_ap a item report_id =
     gen_bind (var_name ''ap_spec_id'' (Some True)) (\<lambda>ap_spec1.
     gen_bind (create_insert_obj_metadata_template LIT) (\<lambda>lit_obj_template.
     gen_bind (var_name ''ap_spec_id'' (Some True)) (\<lambda>ap_spec2.
     gen_bind (var_name ''ap_spec_id'' (Some True)) (\<lambda>ap_spec3.
     gen_bind (var_name ''ap_spec_id'' (Some True)) (\<lambda>ap_spec4.
     gen_bind (make_definition_ids a item) (\<lambda>(def_id, obj_id, act_id, unused).
     gen_bind (gen_of (ari_get_names item)) (\<lambda>(def_ns, def_coll, def_name).
     (case found_ref item of
        None \<Rightarrow> gen_raise RuntimeError_no_reference
      | Some types \<Rightarrow>
          (let fp_id = make_fp_id def_id in
           gen_bind (var_name ''fp_spec_id'' (Some True)) (\<lambda>fp_spec_id.
           gen_bind
             (if ap item \<noteq> [] then
                gen_bind (create_insert_formal_parmspec_templates (\<lambda>x. ''parms for '' @ x))
                  (\<lambda>(formal_parmspec_template, fp_entry_template).
                gen_seq
                  (emit [formal_parmspec_template (str_nat (length (ap item))) def_name
                           fp_spec_id])
                 (gen_bind
                    (for_collect
                       (\<lambda>ap_obj.
                          gen_bind (gen_of (list_index types (ap_position ap_obj))) (\<lambda>a_type.
                          (let enum_text = str_nat (ap_position ap_obj + 1);
                               aid = act_id @ ''_'' @ lower (ap_value ap_obj) @ ''_'' @ enum_text
                           in gen_seq (var_name_unused aid (Some True))
                             (gen_bind (gen_of (sname_of def_coll)) (\<lambda>s.
                              gen_seq
                                (emit [fp_entry_template fp_spec_id enum_text def_name a_type,
                                       [],
                                       insert_actual_parmspec_template ap_spec1 fp_id enum_text [],
                                       insert_actual_name_template ap_spec4 enum_text a_type
                                         ''r_fp_ent'',
                                       insert_coll_actual_def_template ap_spec3 (lower s) def_id
                                         aid])
                                (gen_return aid))))))
                       (ap item))
                    (\<lambda>aids. gen_return (last aids))))
              else gen_return act_id)
             (\<lambda>result.
                if ident_parms item \<noteq> [] then
                  gen_bind
                    (for_collect
                       (\<lambda>(i, p).
                          gen_bind (var_name (''p_lit_meta_'' @ p @ ''_id'') (Some True))
                            (\<lambda>lit_meta_id.
                          gen_bind (var_name (''r_lit_'' @ p @ ''_id'') (Some True))
                            (\<lambda>lit_actual_id.
                          gen_bind (gen_of (list_index types i)) (\<lambda>p_type.
                          (let enum_text = str_nat (i + 1);
                               aid = act_id @ ''_'' @ enum_text @ ''_'' @ p
                           in gen_seq (var_name_unused aid (Some True))
                             (gen_bind (gen_of (sname_of def_coll)) (\<lambda>s.
                              gen_seq
                                (emit [[],
                                       insert_actual_parmspec_template ap_spec1 fp_id enum_text
                                         (''actual parms for '' @ def_name @ '' passed '' @ p),
                                       lit_obj_template (''Literal value '' @ p) lit_meta_id,
                                       insert_literal_actual_def_template lit_meta_id p p_type
                                         lit_actual_id,
                                       insert_actual_parms_obj_template ap_spec2 enum_text p_type
                                         lit_actual_id,
                                       insert_coll_actual_def_template ap_spec3 (lower s) def_id
                                         aid])
                                (gen_return aid))))))))
                       (zip [0..<length (ident_parms item)] (ident_parms item)))
                    (\<lambda>aids. gen_return (last aids))
                else gen_return result)))))))))))"

text \<open>\<^verbatim>\<open>write_rptt_functions\<close>.  The lines of the entries (\<^verbatim>\<open>defn_lines\<close>) are added
  after the statements that \<^verbatim>\<open>handle_report_fp_ap\<close> produced for all entries; the id of
  each entry is recorded as used.\<close>

definition write_rptt_functions :: "adm \<Rightarrow> unit gen" where
  "write_rptt_functions a =
     gen_seq (emit [[], [], ''-- RPTT''])
    (gen_bind (create_insert_ac_id_template RPTT (\<lambda>x. ''ac for report template '' @ x))
       (\<lambda>insert_report_template.
     gen_bind (create_insert_obj_metadata_template RPTT) (\<lambda>insert_obj_template.
     gen_bind (var_name ''rptt_ac_id'' (Some True)) (\<lambda>rptt_ac_id1.
     gen_bind (var_name ''r_ac_rpt_entry_'' None) (\<lambda>r_ac_rpt_entry.
     gen_bind (var_name ''rptt_ac_id'' (Some True)) (\<lambda>rptt_ac_id2.
     for_each
       (\<lambda>obj.
          gen_bind (make_ari a RPTT obj) (\<lambda>ari_text.
          gen_bind (make_sql_ids ari_text (Some True))
            (\<lambda>(report_id, report_def_id, report_act_id).
          gen_seq (emit [[], insert_obj_template (name obj) report_id])
         (gen_bind
            (for_collect
               (\<lambda>item.
                  gen_bind (handle_report_fp_ap a item report_id) (\<lambda>item_id.
                  gen_seq (var_name_unused item_id (Some False))
                 (gen_seq
                    (var_name_unused (''r_ac_rpt_entry_'' @ str_nat (item_position item + 1))
                       (Some True))
                    (gen_return
                       (''CALL SP__insert_ac_actual_entry('' @ rptt_ac_id1 @ '', '' @ item_id @
                        '', '' @ str_nat (item_position item + 1) @ '', '' @ r_ac_rpt_entry @
                        str_nat (item_position item + 1) @ '');'')))))
               (rptt_definition obj))
            (\<lambda>entry_lines.
               gen_seq
                 (emit (insert_report_template (str_nat (length (rptt_definition obj)))
                          (name obj) # entry_lines))
                (gen_bind
                   (if parmspec obj \<noteq> [] then var_name ''fp_spec_id'' (Some True)
                    else gen_return ''null'')
                   (\<lambda>fp_spec_id.
                      gen_seq (var_name_unused report_def_id (Some True))
                     (gen_seq
                        (emit [[],
                               ''CALL SP__insert_report_template_formal_definition('' @
                               report_id @ '', '' @ [SQ] @
                               fmt (escape_description_sql (description obj)) @ ''', '' @
                               fp_spec_id @ '', '' @ rptt_ac_id2 @ '', '' @ report_def_id @
                               '');''])
                        (if parmspec obj = [] then
                           emit [[],
                                 ''CALL SP__insert_report_actual_definition('' @ report_id @
                                 '', null, null, 'Singleton value for '' @ name obj @ ''', '' @
                                 report_act_id @ '');'']
                         else gen_return ())))))))))
       (rptt a)))))))"

text \<open>\<^verbatim>\<open>write_ctrl_functions\<close>.\<close>

definition write_ctrl_functions :: "adm \<Rightarrow> unit gen" where
  "write_ctrl_functions a =
     gen_seq (emit [[], [], ''-- CTRL''])
    (gen_bind (create_insert_obj_metadata_template CTRL) (\<lambda>insert_obj_template.
     gen_bind (create_insert_formal_parmspec_templates (\<lambda>x. ''parms for the '' @ x @ '' control''))
       (\<lambda>(insert_formal_parmspec_template, insert_entry_template).
     for_each
       (\<lambda>obj.
          gen_bind (make_ari a CTRL obj) (\<lambda>ari_text.
          gen_bind (make_sql_ids ari_text (Some True)) (\<lambda>(ctrl_id, ctrl_def_id, ctrl_act_id).
          gen_seq (emit [[], insert_obj_template (name obj) ctrl_id])
         (gen_bind
            (if parmspec obj \<noteq> [] then
               gen_bind (var_name ''fp_spec_id'' (Some True)) (\<lambda>fp_spec_id.
               gen_seq
                 (emit [insert_formal_parmspec_template (str_nat (length (parmspec obj)))
                          (name obj) fp_spec_id])
                (gen_seq
                   (for_each
                      (\<lambda>p. emit [insert_entry_template fp_spec_id (str_nat (position p + 1))
                                    (pname p) (ptype p)])
                      (parmspec obj))
                   (gen_return fp_spec_id)))
             else gen_return ''null'')
            (\<lambda>fp_spec_id.
               emit [''CALL SP__insert_control_formal_definition('' @ ctrl_id @ '' , '' @ [SQ] @
                     fmt (escape_description_sql (description obj)) @ ''', '' @ fp_spec_id @
                     '', '' @ ctrl_def_id @ '');''])))))
       (ctrl a))))"

text \<open>\<^verbatim>\<open>write_gen_const_functions(objects, coll)\<close>, shared by the constants and the
  metadata.\<close>

definition insert_const_actual_def_template ::
  "string \<Rightarrow> string \<Rightarrow> string \<Rightarrow> string \<Rightarrow> string \<Rightarrow> string" where
  "insert_const_actual_def_template const_id c_desc c_type c_value const_act_id =
     ''CALL SP__insert_const_actual_definition('' @ const_id @ '', '' @ [SQ] @ c_desc @ ''', '' @ [SQ] @
     c_type @ ''', '' @ [SQ] @ c_value @ ''', '' @ const_act_id @ '');''"

definition write_gen_const_functions :: "adm \<Rightarrow> adm_obj list \<Rightarrow> coll \<Rightarrow> unit gen" where
  "write_gen_const_functions a objects c =
     gen_bind (create_insert_obj_metadata_template c) (\<lambda>insert_obj_template.
     for_each
       (\<lambda>obj.
          gen_bind (make_ari a c obj) (\<lambda>ari_text.
          gen_bind (make_sql_ids ari_text (Some True)) (\<lambda>(const_id, const_def_id, const_act_id).
          emit [[],
                insert_obj_template (name obj) const_id,
                insert_const_actual_def_template const_id
                  (fmt (escape_description_sql (description obj))) (otype obj) (ovalue obj)
                  const_act_id])))
       objects)"

definition write_const_functions :: "adm \<Rightarrow> unit gen" where
  "write_const_functions a =
     gen_seq (emit [[], [], ''-- CONST'']) (write_gen_const_functions a (const a) CONSTANT)"

definition write_mdat_functions :: "adm \<Rightarrow> unit gen" where
  "write_mdat_functions a =
     gen_seq (emit [[], [], ''-- MDAT'']) (write_gen_const_functions a (mdat a) META)"

text \<open>
  \<^verbatim>\<open>write_mac_functions\<close>.  The first statement of the loop body that evaluates a name
  is \<^verbatim>\<open>self.make_sql_ids(self._make_ari(cs.MACRO, m))\<close>.  The name \<^verbatim>\<open>m\<close> is bound
  nowhere: it is no local of the method (the loop variable is \<^verbatim>\<open>mac\<close>), no name of the
  module and no builtin.  So the body raises \<^verbatim>\<open>NameError\<close> when it is first entered, and
  the statements after it are never reached.
\<close>

definition write_mac_functions :: "adm \<Rightarrow> unit gen" where
  "write_mac_functions a =
     gen_seq (emit [[], [], ''-- MAC''])
    (gen_bind (create_insert_obj_metadata_template MACRO) (\<lambda>insert_obj_template.
     gen_bind (create_insert_formal_parmspec_templates (\<lambda>x. ''parms for the '' @ x @ '' macro''))
       (\<lambda>templates.
     gen_bind (create_insert_ac_id_template MACRO (\<lambda>x. ''ac for '' @ x @ '' macro''))
       (\<lambda>insert_ac_id_template.
     gen_bind (var_name ''mac_ac_id'' (Some True)) (\<lambda>mac_ac_id1.
     gen_bind (var_name ''r_ac_entry_id'' (Some True)) (\<lambda>r_ac_entry_id.
     gen_bind (var_name ''mac_ac_id'' (Some True)) (\<lambda>mac_ac_id2.
     for_each (\<lambda>obj. gen_raise NameError) (mac a))))))))"

subsection \<open>\<^verbatim>\<open>write\<close>\<close>

text \<open>The per-object part of \<^verbatim>\<open>write\<close>: the ten calls, in the order of the source.\<close>

definition assemble :: "adm \<Rightarrow> unit gen" where
  "assemble a =
     gen_seq (write_metadata_function a)
    (gen_seq (write_mdat_functions a)
    (gen_seq (write_edd_functions a)
    (gen_seq (write_oper_functions a)
    (gen_seq (write_var_functions a)
    (gen_seq (write_tblt_functions a)
    (gen_seq (write_rptt_functions a)
    (gen_seq (write_ctrl_functions a)
    (gen_seq (write_const_functions a)
             (write_mac_functions a)))))))))"

text \<open>\<^verbatim>\<open>write\<close> on a writer just constructed: the head is the setup followed by what
  \<^verbatim>\<open>body_pre\<close> returns, the body is what the ten calls produced followed by
  \<^verbatim>\<open>body_post\<close>, and every line is written with a newline.\<close>

definition sql_lines :: "adm \<Rightarrow> dialect \<Rightarrow> string \<Rightarrow> py_error + string list" where
  "sql_lines a d today =
     (case sql_init a d of
        Inl e \<Rightarrow> Inl e
      | Inr w0 \<Rightarrow>
          (case assemble a w0 of
             Inl e \<Rightarrow> Inl e
           | Inr (u, w) \<Rightarrow>
               (case body_pre a w of
                  Inl e \<Rightarrow> Inl e
                | Inr pre \<Rightarrow> Inr (write_setup a today @ pre @ body w @ body_post w))))"

definition sql_write :: "adm \<Rightarrow> dialect \<Rightarrow> string \<Rightarrow> py_error + string" where
  "sql_write a d today =
     (case sql_lines a d today of
        Inl e \<Rightarrow> Inl e
      | Inr ls \<Rightarrow> Inr (foldl (\<lambda>outfile line. file_write (file_write outfile line) [NL]) [] ls))"


section \<open>Notions used to state the properties\<close>

subsection \<open>The scan seen in file order\<close>

text \<open>The lines of a file after the first line that, stripped, is the marker \<open>m\<close>.\<close>

definition after_marker :: "string \<Rightarrow> string list \<Rightarrow> string list" where
  "after_marker m ls = drop 1 (dropWhile (\<lambda>l. strip l \<noteq> m) ls)"

text \<open>The body scan as a recursion over the lines of the file from first to last; it is
  shown below to be what \<^const>\<open>body_loop\<close> computes on the reversed queue.\<close>

fun scan_bodies :: "string option \<Rightarrow> func_bods \<Rightarrow> string list \<Rightarrow> py_error + func_bods" where
  "scan_bodies func bods [] = Inr bods"
| "scan_bodies None bods (l # ls) =
     (case start_re (strip l) of
        Some g \<Rightarrow> scan_bodies (Some g) bods ls
      | None \<Rightarrow> scan_bodies None bods ls)"
| "scan_bodies (Some f) bods [l] =
     (if strip l = indicator then Inl IndexError
      else scan_bodies (Some f) (bods_append f l bods) [])"
| "scan_bodies (Some f) bods (l # l2 # ls) =
     (if strip l = indicator then
        (if end_re (strip l2) then
           (case map_of bods f of
              None \<Rightarrow> Inl KeyError
            | Some xs \<Rightarrow>
                (if xs = [] then Inl IndexError
                 else scan_bodies None (AList.update f (butlast xs) bods) ls))
         else scan_bodies (Some f) bods ls)
      else scan_bodies (Some f) (bods_append f l bods) (l2 # ls))"

subsection \<open>Well-formed lines, names and files\<close>

text \<open>A function name that the body markers can carry: not empty, on one line.\<close>

definition valid_name :: "string \<Rightarrow> bool" where
  "valid_name f \<longleftrightarrow> f \<noteq> [] \<and> NL \<notin> set f \<and> CR \<notin> set f"

text \<open>The stripped form of a marker line of a fence.\<close>

definition clean_marker :: "string \<Rightarrow> string \<Rightarrow> string" where
  "clean_marker kind f = ''* '' @ marker_format kind f"

text \<open>A complete line of text: it ends with its only newline and has no carriage
  return.\<close>

definition proper_line :: "string \<Rightarrow> bool" where
  "proper_line l \<longleftrightarrow> l \<noteq> [] \<and> last l = NL \<and> NL \<notin> set (butlast l) \<and> CR \<notin> set l"

text \<open>A file as a sequence of segments: generated lines, and per-function regions
  (start fence, content, stop fence).\<close>

datatype segment = Boiler "string list" | Region string "string list"

fun segment_lines :: "segment \<Rightarrow> string list" where
  "segment_lines (Boiler ls) = ls"
| "segment_lines (Region f cs) =
     fence (marker_format ''START'' f) @ cs @ fence (marker_format ''STOP'' f)"

fun segment_ok :: "segment \<Rightarrow> bool" where
  "segment_ok (Boiler ls) = (\<forall>l\<in>set ls. start_re (strip l) = None)"
| "segment_ok (Region f cs) = (valid_name f \<and> (\<forall>l\<in>set cs. strip l \<noteq> indicator))"

fun region_of :: "segment \<Rightarrow> (string \<times> string list) list" where
  "region_of (Boiler ls) = []"
| "region_of (Region f cs) = [(f, cs)]"

definition regions :: "segment list \<Rightarrow> (string \<times> string list) list" where
  "regions segs = concat (map region_of segs)"

text \<open>The content lines of all regions named \<open>g\<close>, in file order.\<close>

definition captured :: "segment list \<Rightarrow> string \<Rightarrow> string list" where
  "captured segs g = concat (map snd (filter (\<lambda>r. fst r = g) (regions segs)))"

text \<open>The conditions under which a written file scrapes back to what was written.\<close>

definition region_ok :: "string \<times> string \<Rightarrow> string list \<Rightarrow> string list \<Rightarrow> bool" where
  "region_ok markers before custom \<longleftrightarrow>
     (\<forall>l\<in>set before. proper_line l \<and> strip l \<noteq> fst markers) \<and>
     (\<forall>l\<in>set custom. proper_line l \<and> strip l \<noteq> snd markers)"

fun piece_ok :: "func_bods \<Rightarrow> piece \<Rightarrow> bool" where
  "piece_ok bods (Generated ls) = (\<forall>l\<in>set ls. proper_line l \<and> start_re (strip l) = None)"
| "piece_ok bods (Custom_body f) =
     (valid_name f \<and> (\<forall>l\<in>set (bods_get bods f). proper_line l \<and> strip l \<noteq> indicator))"

fun body_name :: "piece \<Rightarrow> string list" where
  "body_name (Generated ls) = []"
| "body_name (Custom_body f) = [f]"

definition body_names :: "piece list \<Rightarrow> string list" where
  "body_names pieces = concat (map body_name pieces)"

fun piece_segment :: "func_bods \<Rightarrow> piece \<Rightarrow> segment" where
  "piece_segment bods (Generated ls) = Boiler ls"
| "piece_segment bods (Custom_body f) = Region f (bods_get bods f)"

subsection \<open>The lines of a written file\<close>

text \<open>What the write side puts around a singleton region, line by line.\<close>

definition region_lines :: "string \<times> string \<Rightarrow> string list \<Rightarrow> string list" where
  "region_lines markers custom = [fst markers @ [NL]] @ custom @ [snd markers @ [NL], [NL]]"

text \<open>The lines of a source file as the constructor of the scraper needs them: the
  custom-includes pair and the custom-functions pair first, in this order, each after
  some other lines, and then the part that holds the per-function regions.\<close>

definition c_file_lines ::
  "string list \<Rightarrow> string list \<Rightarrow> string list \<Rightarrow> string list \<Rightarrow> segment list \<Rightarrow> string list" where
  "c_file_lines hdr inc mid fns segs =
     hdr @ region_lines make_custom_includes_markers inc @
     mid @ region_lines make_custom_functions_markers fns @
     concat (map segment_lines segs)"

definition impl_c_lines :: "c_scraper \<Rightarrow> string list \<Rightarrow> string list \<Rightarrow> piece list \<Rightarrow> string list" where
  "impl_c_lines sc file_header includes_text pieces =
     file_header @ region_lines make_custom_includes_markers (includes_lines sc) @
     includes_text @ region_lines make_custom_functions_markers (functions_lines sc) @
     concat (map (\<lambda>p. segment_lines (piece_segment (func_bods sc) p)) pieces)"

definition impl_h_lines ::
  "h_scraper \<Rightarrow> string list \<Rightarrow> string list \<Rightarrow> string list \<Rightarrow> string list \<Rightarrow> string list" where
  "impl_h_lines sc defines includes_text comment_header declarations =
     defines @ region_lines make_custom_includes_markers (includes_lines sc) @
     includes_text @ region_lines make_custom_type_enum_markers (type_enums sc) @
     comment_header @ region_lines make_custom_functions_markers (functions_lines sc) @
     declarations"


subsection \<open>Example inputs\<close>

text \<open>The body part of a generated source file with two hand-written bodies.\<close>

definition example_segments :: "segment list" where
  "example_segments =
     [Boiler [''void test_adm_setup()'' @ [NL], ''{'' @ [NL]],
      Region ''setup'' [''int a = 1;'' @ [NL]],
      Boiler [''}'' @ [NL]],
      Region ''cleanup'' [''free(p);'' @ [NL], ''p = NULL;'' @ [NL]]]"

text \<open>A source file with the two pairs and these bodies, and one in which the region
  of \<open>get_bar\<close> is not closed before the region of \<open>get_foo\<close> starts.\<close>

definition example_c_file :: string where
  "example_c_file =
     concat (c_file_lines [''/* File Name: adm_test_adm_impl.c */'' @ [NL], [NL]]
       [''#include <math.h>'' @ [NL]]
       [[NL], ''#include <adm.h>'' @ [NL], [NL]]
       [''static int twice(int x) { return 2 * x; }'' @ [NL]]
       example_segments)"

definition unclosed_c_file :: string where
  "unclosed_c_file =
     concat (c_file_lines [''/* File Name: adm_test_adm_impl.c */'' @ [NL], [NL]]
       [''#include <math.h>'' @ [NL]]
       [[NL], ''#include <adm.h>'' @ [NL], [NL]]
       [''static int twice(int x) { return 2 * x; }'' @ [NL]]
       [Boiler (fence (marker_format ''START'' ''get_bar'') @ [''int bar;'' @ [NL]]),
        Region ''get_foo'' [''int foo;'' @ [NL]]])"

text \<open>A source file and a header file with hand-written content in every region.\<close>

definition example_c_scraper :: c_scraper where
  "example_c_scraper =
     \<lparr>filename = None,
      includes_lines = [''#include <math.h>'' @ [NL]],
      functions_lines = [''static int twice(int x) { return 2 * x; }'' @ [NL]],
      func_bods = [(''setup'', [TAB # ''counter = twice(0);'' @ [NL]])]\<rparr>"

definition example_header :: "string list" where
  "example_header = [''/* File Name: adm_test_adm_impl.c */'' @ [NL], [NL]]"

definition example_includes_text :: "string list" where
  "example_includes_text = [[NL], ''#include <adm.h>'' @ [NL], [NL]]"

definition example_pieces :: "piece list" where
  "example_pieces =
     [Generated [''void test_adm_setup()'' @ [NL], ''{'' @ [NL], [NL]],
      Custom_body ''setup'',
      Generated [''}'' @ [NL], [NL], ''void test_adm_cleanup()'' @ [NL], ''{'' @ [NL], [NL]],
      Custom_body ''cleanup'',
      Generated [''}'' @ [NL], [NL]]]"

definition example_h_scraper :: h_scraper where
  "example_h_scraper =
     \<lparr>filename = None,
      includes_lines = [''#include <math.h>'' @ [NL]],
      functions_lines = [''int twice(int x);'' @ [NL]],
      type_enums = [''typedef enum { RED, GREEN } colour_t;'' @ [NL]]\<rparr>"

definition example_defines :: "string list" where
  "example_defines = [''#ifndef ADM_TEST_ADM_IMPL_H_'' @ [NL], ''#define ADM_TEST_ADM_IMPL_H_'' @ [NL], [NL]]"

definition example_declarations :: "string list" where
  "example_declarations = [''void test_adm_setup();'' @ [NL], ''void test_adm_cleanup();'' @ [NL]]"

subsection \<open>Generators that stop a run\<close>

text \<open>A generator at which an exception leaves the loop: its directory cannot be made,
  or its writing raises an exception that is not an \<^verbatim>\<open>IOError\<close>.\<close>

definition aborts :: "generator \<Rightarrow> bool" where
  "aborts gen \<longleftrightarrow> (\<not> dir_exists gen \<and> makedirs_raises gen) \<or> outcome gen = Raises_other"

definition generator_of :: "write_outcome \<Rightarrow> generator" where
  "generator_of r = \<lparr>dir_exists = True, makedirs_raises = False, outcome = r\<rparr>"

definition plain_args :: run_args where
  "plain_args = \<lparr>only_sql = False, only_ch = False, admfile_exists = True,
                  outdir_raises = False, load_raises = False, mdat_missing = []\<rparr>"


section \<open>Notions used to state the properties of the SQL writer\<close>

text \<open>A method that never raises the error of the finalization step, and an
  expression that never does.\<close>

definition never_undefined :: "'a gen \<Rightarrow> bool" where
  "never_undefined m \<longleftrightarrow> (\<forall>w U. m w \<noteq> Inl (RuntimeError_undefined U))"

definition not_undefined :: "py_error + 'a \<Rightarrow> bool" where
  "not_undefined r \<longleftrightarrow> (\<forall>U. r \<noteq> Inl (RuntimeError_undefined U))"

text \<open>The writer as the per-object assembly leaves it: construction, then the ten
  calls of \<^verbatim>\<open>write\<close>.\<close>

definition assembled :: "adm \<Rightarrow> dialect \<Rightarrow> py_error + sql_writer" where
  "assembled a d =
     (case sql_init a d of
        Inl e \<Rightarrow> Inl e
      | Inr w0 \<Rightarrow> (case assemble a w0 of Inl e \<Rightarrow> Inl e | Inr (u, w) \<Rightarrow> Inr w))"

text \<open>The nine calls of \<^verbatim>\<open>write\<close> that come before \<^verbatim>\<open>write_mac_functions\<close>.\<close>

definition before_mac :: "adm \<Rightarrow> unit gen" where
  "before_mac a =
     gen_seq (write_metadata_function a)
    (gen_seq (write_mdat_functions a)
    (gen_seq (write_edd_functions a)
    (gen_seq (write_oper_functions a)
    (gen_seq (write_var_functions a)
    (gen_seq (write_tblt_functions a)
    (gen_seq (write_rptt_functions a)
    (gen_seq (write_ctrl_functions a)
             (write_const_functions a))))))))"

subsection \<open>Example ADMs\<close>

definition plain_obj :: adm_obj where
  "plain_obj = \<lparr>name = [], description = None, enum = 0, otype = [], ovalue = [],
     result_type = [], parmspec = [], in_type = [], postfix = [], columns = [],
     rptt_definition = [], action = []\<rparr>"

definition empty_adm :: adm where
  "empty_adm = \<lparr>norm_name = ''test_adm'', norm_namespace = ''test/adm'', adm_ns = ''test/adm'',
     adm_enum = 9, mdat = [], const = [], edd = [], oper = [], var = [], tblt = [],
     rptt = [], ctrl = [], mac = []\<rparr>"

text \<open>The constant of the end-to-end scenario, and the ADM that holds nothing else.\<close>

definition mySize :: adm_obj where
  "mySize = plain_obj\<lparr>name := ''mySize'', description := Some ''The size'', enum := 3,
     otype := ''UINT'', ovalue := ''4''\<rparr>"

definition test_adm :: adm where
  "test_adm = empty_adm\<lparr>const := [mySize]\<rparr>"

text \<open>A report template with one entry, a reference to an object of the same
  namespace that has no parameters.\<close>

definition edd_ref :: ari where
  "edd_ref = \<lparr>ns = ''test/adm'', nm = ''EDD.uptime'', item_position = 0, ap = [],
     ident_parms = [], found_ref = Some []\<rparr>"

definition report_adm :: adm where
  "report_adm =
     empty_adm\<lparr>rptt := [plain_obj\<lparr>name := ''full'', rptt_definition := [edd_ref]\<rparr>]\<rparr>"

text \<open>An ADM with one macro, and one whose report template moreover refers to an
  object that is not found.\<close>

definition macro_adm :: adm where
  "macro_adm = empty_adm\<lparr>mac := [plain_obj\<lparr>name := ''reset''\<rparr>]\<rparr>"

definition dangling_adm :: adm where
  "dangling_adm =
     macro_adm\<lparr>rptt := [plain_obj\<lparr>name := ''full'',
                                   rptt_definition := [edd_ref\<lparr>found_ref := None\<rparr>]\<rparr>]\<rparr>"


section \<open>Lemmas about the scrape engine\<close>

declare find_start.simps [simp del] append_until_end.simps [simp del] body_loop.simps [simp del]

lemma fill_queue_rev: "fill_queue ls = rev ls"
proof -
  have "foldl (\<lambda>c line. line # c) acc ls = rev ls @ acc" for acc
    by (induction ls arbitrary: acc) auto
  then show ?thesis by (simp add: fill_queue_def)
qed

lemma find_start_rev:
  "strip line \<noteq> start \<Longrightarrow> snd (find_start start line (rev ls)) = rev (after_marker start ls)"
proof (induction ls arbitrary: line)
  case Nil
  then show ?case by (simp add: find_start.simps after_marker_def)
next
  case (Cons a ls)
  have step: "find_start start line (rev (a # ls)) = find_start start a (rev ls)"
    using Cons.prems by (subst find_start.simps) simp
  show ?case
  proof (cases "strip a = start")
    case True
    then have "find_start start a (rev ls) = (a, rev ls)"
      by (subst find_start.simps) simp
    with True step show ?thesis by (simp add: after_marker_def)
  next
    case False
    with Cons.IH [of a] step show ?thesis by (simp add: after_marker_def)
  qed
qed

lemma append_until_end_rev:
  "append_until_end e found (rev ls) =
     (found @ takeWhile (\<lambda>l. strip l \<noteq> e) ls, rev (after_marker e ls))"
proof (induction ls arbitrary: found)
  case Nil
  then show ?case by (simp add: append_until_end.simps after_marker_def)
next
  case (Cons a ls)
  show ?case
  proof (cases "strip a = e")
    case True
    then show ?thesis by (subst append_until_end.simps) (simp add: after_marker_def)
  next
    case False
    then have "append_until_end e found (rev (a # ls)) = append_until_end e (found @ [a]) (rev ls)"
      by (subst append_until_end.simps) simp
    with False Cons.IH [of "found @ [a]"] show ?thesis by (simp add: after_marker_def)
  qed
qed

lemma strip_Nil: "strip [] = []" by (simp add: strip_def)

lemma find_in_queue_rev:
  "start \<noteq> [] \<Longrightarrow> find_in_queue (start, e) (rev ls) =
     (takeWhile (\<lambda>l. strip l \<noteq> e) (after_marker start ls),
      rev (after_marker e (after_marker start ls)))"
proof -
  assume s: "start \<noteq> []"
  then have ne: "strip [] \<noteq> start" by (simp add: strip_Nil)
  obtain l q where fs: "find_start start [] (rev ls) = (l, q)" by (cases "find_start start [] (rev ls)")
  with find_start_rev [OF ne, of ls] have q: "q = rev (after_marker start ls)" by simp
  show ?thesis by (simp add: find_in_queue_def fs q append_until_end_rev)
qed

lemma body_loop_rev: "body_loop func bods (rev ls) = scan_bodies func bods ls"
proof (induction func bods ls rule: scan_bodies.induct)
  case (1 func bods)
  then show ?case by (subst body_loop.simps) simp
next
  case (2 bods l ls)
  then show ?case by (subst body_loop.simps) (simp split: option.splits)
next
  case (3 f bods l)
  then show ?case by (subst body_loop.simps) simp
next
  case (4 f bods l l2 ls)
  have b: "butlast (rev ls @ [l2, l]) = rev ls @ [l2]" "last (rev ls @ [l2, l]) = l"
    by (simp_all add: butlast_append)
  show ?case
  proof (cases "strip l = indicator")
    case True
    note ind = this
    show ?thesis
    proof (cases "end_re (strip l2)")
      case True
      with ind 4 show ?thesis
        by (subst body_loop.simps) (simp add: b split: option.splits)
    next
      case False
      with ind 4 show ?thesis
        by (subst body_loop.simps) (simp add: b)
    qed
  next
    case False
    with 4 show ?thesis
      by (subst body_loop.simps) (simp add: b)
  qed
qed

lemma strip_wrap:
  assumes "\<forall>c\<in>set a. isspace c" "\<forall>c\<in>set b. isspace c"
    and "x \<noteq> []" "\<not> isspace (hd x)" "\<not> isspace (last x)"
  shows "strip (a @ x @ b) = x"
proof -
  have 1: "dropWhile isspace (a @ x @ b) = x @ b"
    using assms by (cases x) (simp_all add: dropWhile_append3)
  have "dropWhile isspace (rev b @ rev x) = dropWhile isspace (rev x)"
    by (rule dropWhile_append2) (use assms(2) in auto)
  also have "\<dots> = rev x"
    using assms(3,5) by (cases "rev x") (auto simp: last_rev [symmetric] hd_rev)
  finally show ?thesis by (simp add: strip_def 1)
qed

lemma greedy_exact:
  "f \<noteq> [] \<Longrightarrow> suf \<noteq> [] \<Longrightarrow> length f \<le> k \<Longrightarrow> greedy suf k (f @ suf) = Some f"
proof (induction k)
  case 0
  then show ?case by simp
next
  case (Suc j)
  show ?case
  proof (cases "Suc j = length f")
    case True
    show ?thesis
      by (subst greedy.simps) (simp add: True)
  next
    case False
    with Suc.prems have lt: "length f \<le> j" by simp
    have len: "length (take (length suf) (drop (Suc j) (f @ suf))) < length suf"
      using lt Suc.prems(2) by (cases suf) auto
    have "take (length suf) (drop (Suc j) (f @ suf)) \<noteq> suf"
    proof
      assume "take (length suf) (drop (Suc j) (f @ suf)) = suf"
      then have "length (take (length suf) (drop (Suc j) (f @ suf))) = length suf"
        by (rule arg_cong)
      with len show False by linarith
    qed
    with Suc.IH [OF Suc.prems(1,2) lt] show ?thesis by simp
  qed
qed

lemma match_here_exact:
  assumes "f \<noteq> []" "NL \<notin> set f"
  shows "match_here pre (pre @ f @ '' BODY'') = Some f"
proof -
  have "takeWhile (\<lambda>c. c \<noteq> NL) (f @ '' BODY'') = f @ takeWhile (\<lambda>c. c \<noteq> NL) '' BODY''"
    using assms(2) by (intro takeWhile_append2) auto
  then have "length f \<le> length (takeWhile (\<lambda>c. c \<noteq> NL) (f @ '' BODY''))" by simp
  from greedy_exact [OF assms(1) _ this, of "'' BODY''"] show ?thesis
    by (simp add: match_here_def dot_plus_then_def)
qed

lemma start_re_marker:
  "valid_name f \<Longrightarrow> start_re (clean_marker ''START'' f) = Some f"
  using match_here_exact [of f "''* |START CUSTOM FUNCTION ''"]
  by (simp add: start_re_def marker_format_def valid_name_def clean_marker_def)

lemma end_re_marker:
  "valid_name g \<Longrightarrow> end_re (clean_marker ''STOP'' g)"
  using match_here_exact [of g "''* |STOP CUSTOM FUNCTION ''"]
  by (simp add: end_re_def marker_format_def valid_name_def clean_marker_def)

lemma strip_open_line: "strip open_line = ''/*''" by code_simp
lemma strip_close_line: "strip close_line = ''*/''" by code_simp
lemma strip_indicator_line: "strip indicator_line = indicator" by code_simp
lemma start_re_open: "start_re ''/*'' = None" by code_simp
lemma start_re_close: "start_re ''*/'' = None" by code_simp
lemma start_re_indicator: "start_re indicator = None" by code_simp
lemma end_re_close: "\<not> end_re ''*/''" by code_simp
lemma open_not_indicator: "''/*'' \<noteq> indicator" by code_simp

lemma strip_marker_line:
  "strip (marker_line (marker_format kind f)) = clean_marker kind f"
proof -
  have "strip ([TAB, CHR '' ''] @ (''* '' @ marker_format kind f) @ [NL]) = ''* '' @ marker_format kind f"
    by (rule strip_wrap) (simp_all add: isspace_def marker_format_def)
  then show ?thesis by (simp add: marker_line_def clean_marker_def)
qed

lemma clean_marker_not_indicator: "clean_marker kind f \<noteq> indicator"
  by (simp add: clean_marker_def marker_format_def indicator_def)

lemmas fence_simps = strip_open_line strip_close_line strip_indicator_line
  strip_marker_line start_re_open start_re_close start_re_indicator end_re_close open_not_indicator

lemma bods_get_update: "bods_get (AList.update f xs bods) g = (if g = f then xs else bods_get bods g)"
  by (simp add: bods_get_def update_conv')

lemma bods_append_update: "bods_append f l bods = AList.update f (bods_get bods f @ [l]) bods"
  by (simp add: bods_append_def bods_get_def)

lemma scan_skip:
  "\<forall>l\<in>set bl. start_re (strip l) = None \<Longrightarrow>
     scan_bodies None bods (bl @ rest) = scan_bodies None bods rest"
  by (induction bl) auto

lemma scan_content_step:
  "strip l \<noteq> indicator \<Longrightarrow>
     scan_bodies (Some f) bods (l # ls) = scan_bodies (Some f) (bods_append f l bods) ls"
  by (cases ls) auto

lemma scan_content:
  "\<forall>l\<in>set cs. strip l \<noteq> indicator \<Longrightarrow>
     scan_bodies (Some f) bods (cs @ rest) =
     scan_bodies (Some f) (if cs = [] then bods else AList.update f (bods_get bods f @ cs) bods) rest"
proof (induction cs arbitrary: bods)
  case Nil
  then show ?case by simp
next
  case (Cons c cs)
  then have "scan_bodies (Some f) bods ((c # cs) @ rest) =
      scan_bodies (Some f) (bods_append f c bods) (cs @ rest)"
    by (simp add: scan_content_step)
  also have "\<dots> = scan_bodies (Some f)
      (if cs = [] then bods_append f c bods
       else AList.update f (bods_get (bods_append f c bods) f @ cs) (bods_append f c bods)) rest"
    using Cons by simp
  finally show ?case
    by (simp add: bods_append_update bods_get_update)
qed

lemma scan_start_fence:
  assumes "valid_name f"
  shows "scan_bodies None bods (fence (marker_format ''START'' f) @ rest) =
         scan_bodies (Some f) bods rest"
  using assms by (cases rest) (simp_all add: fence_def fence_simps start_re_marker)

lemma scan_stop_fence:
  assumes "valid_name g"
  shows "scan_bodies (Some f) bods (fence (marker_format ''STOP'' g) @ rest) =
         scan_bodies None (AList.update f (bods_get bods f) bods) rest"
  using assms
  by (simp add: fence_def fence_simps end_re_marker bods_append_update update_conv')

lemma scan_region:
  assumes "valid_name f" "valid_name g" "\<forall>l\<in>set cs. strip l \<noteq> indicator"
  shows "scan_bodies None bods
           (fence (marker_format ''START'' f) @ cs @ fence (marker_format ''STOP'' g) @ rest) =
         scan_bodies None (AList.update f (bods_get bods f @ cs) bods) rest"
  using assms
  by (simp add: scan_start_fence scan_content scan_stop_fence bods_get_update)

lemma after_marker_hit:
  "\<forall>l\<in>set pre. strip l \<noteq> m \<Longrightarrow> strip s = m \<Longrightarrow> after_marker m (pre @ s # rest) = rest"
  by (simp add: after_marker_def dropWhile_append3)

lemma takeWhile_hit:
  "\<forall>l\<in>set inc. strip l \<noteq> e \<Longrightarrow> strip x = e \<Longrightarrow>
     takeWhile (\<lambda>l. strip l \<noteq> e) (inc @ x # rest) = inc"
  by (simp add: takeWhile_append2 takeWhile_tail)

lemma find_in_queue_region:
  assumes "start \<noteq> []"
    and "\<forall>l\<in>set pre. strip l \<noteq> start" "strip s = start"
    and "\<forall>l\<in>set inc. strip l \<noteq> e" "strip x = e"
  shows "find_in_queue (start, e) (fill_queue (pre @ s # inc @ x # rest)) = (inc, fill_queue rest)"
  using assms
  by (simp add: fill_queue_rev find_in_queue_rev [OF assms(1)] after_marker_hit takeWhile_hit
      del: rev_append rev.simps)

lemma find_in_queue_prefix:
  assumes "start \<noteq> []"
  shows "\<exists>k. snd (find_in_queue (start, e) q) = take k q"
proof -
  have am: "\<exists>k. after_marker m ls = drop k ls" for m ls
  proof -
    have "after_marker m ls = drop (Suc (length (takeWhile (\<lambda>l. strip l \<noteq> m) ls))) ls"
      by (simp add: after_marker_def dropWhile_eq_drop)
    then show ?thesis by blast
  qed
  obtain k1 where k1: "after_marker start (rev q) = drop k1 (rev q)" using am by blast
  obtain k2 where k2: "after_marker e (drop k1 (rev q)) = drop k2 (drop k1 (rev q))" using am by blast
  have "snd (find_in_queue (start, e) (rev (rev q))) = rev (drop (k2 + k1) (rev q))"
    by (simp add: find_in_queue_rev [OF assms] k1 k2 del: rev_rev_ident)
  then have "snd (find_in_queue (start, e) q) = take (length q - (k2 + k1)) q"
    by (simp add: rev_drop)
  then show ?thesis by blast
qed

subsection \<open>The write side as one concatenation\<close>

lemma write_region_eq:
  "write_region (start, e) custom file = file @ start @ [NL] @ concat custom @ e @ [NL, NL]"
proof -
  have "foldl file_write acc custom = acc @ concat custom" for acc
    by (induction custom arbitrary: acc) (simp_all add: file_write_def)
  then show ?thesis by (simp add: write_region_def file_write_def)
qed

lemma write_custom_body_eq:
  "write_custom_body self file function =
     file @ concat (fence (marker_format ''START'' function)) @
       concat (bods_get (func_bods self) function) @
       concat (fence (marker_format ''STOP'' function))"
proof -
  have "foldl file_write acc custom = acc @ concat custom" for acc custom
    by (induction custom arbitrary: acc) (simp_all add: file_write_def)
  then show ?thesis
    by (simp add: write_custom_body_def make_custom_body_markers_def file_write_def)
qed


subsection \<open>Files made of segments\<close>

lemma captured_Cons:
  "captured (Boiler ls # segs) g = captured segs g"
  "captured (Region f cs # segs) g = (if f = g then cs else []) @ captured segs g"
  by (simp_all add: captured_def regions_def)

lemma regions_Cons:
  "regions (Boiler ls # segs) = regions segs"
  "regions (Region f cs # segs) = (f, cs) # regions segs"
  by (simp_all add: regions_def)

lemma scan_segments:
  "\<forall>s\<in>set segs. segment_ok s \<Longrightarrow>
     \<exists>bods'. scan_bodies None bods (concat (map segment_lines segs)) = Inr bods'
        \<and> (\<forall>g. bods_get bods' g = bods_get bods g @ captured segs g)
        \<and> fst ` set bods' = fst ` set bods \<union> fst ` set (regions segs)"
proof (induction segs arbitrary: bods)
  case Nil
  then show ?case by (simp add: captured_def regions_def)
next
  case (Cons s segs)
  show ?case
  proof (cases s)
    case (Boiler ls)
    with Cons.prems have "\<forall>l\<in>set ls. start_re (strip l) = None" by simp
    then have "scan_bodies None bods (concat (map segment_lines (s # segs)))
        = scan_bodies None bods (concat (map segment_lines segs))"
      using Boiler by (simp add: scan_skip)
    with Cons.IH [of bods] Cons.prems Boiler show ?thesis
      by (simp add: captured_Cons regions_Cons)
  next
    case (Region f cs)
    let ?b = "AList.update f (bods_get bods f @ cs) bods"
    from Cons.prems Region have ok: "valid_name f" "\<forall>l\<in>set cs. strip l \<noteq> indicator" by simp_all
    have step: "scan_bodies None bods (concat (map segment_lines (s # segs)))
        = scan_bodies None ?b (concat (map segment_lines segs))"
      using scan_region [OF ok(1) ok(1) ok(2)] Region by simp
    have rest_ok: "\<forall>s\<in>set segs. segment_ok s" using Cons.prems by simp
    from Cons.IH [OF rest_ok, of ?b] obtain bods' where
        b1: "scan_bodies None ?b (concat (map segment_lines segs)) = Inr bods'"
        and b2: "\<And>g. bods_get bods' g = bods_get ?b g @ captured segs g"
        and b3: "fst ` set bods' = fst ` set ?b \<union> fst ` set (regions segs)"
      by blast
    have c1: "scan_bodies None bods (concat (map segment_lines (s # segs))) = Inr bods'"
      using step b1 by simp
    have c2: "bods_get bods' g = bods_get bods g @ captured (s # segs) g" for g
      unfolding b2 Region by (simp add: captured_Cons bods_get_update)
    have c3: "fst ` set bods' = fst ` set bods \<union> fst ` set (regions (s # segs))"
      unfolding b3 Region by (simp add: regions_Cons dom_update)
    from c1 c2 c3 show ?thesis by blast
  qed
qed

lemma captured_absent: "g \<notin> fst ` set (regions segs) \<Longrightarrow> captured segs g = []"
proof (induction segs)
  case Nil
  then show ?case by (simp add: captured_def regions_def)
next
  case (Cons s segs)
  then show ?case by (cases s) (auto simp: captured_Cons regions_Cons)
qed

lemma captured_other:
  "f \<noteq> g \<Longrightarrow> captured (pre @ Region f cs # post) g = captured (pre @ post) g"
  by (simp add: captured_def regions_def)

lemma map_of_None_iff_bods: "map_of bods g = None \<longleftrightarrow> g \<notin> fst ` set bods"
  by (simp add: map_of_eq_None_iff)


subsection \<open>Written text and the lines read back\<close>

lemma foldl_file_write: "foldl file_write acc ls = acc @ concat ls"
  by (induction ls arbitrary: acc) (simp_all add: file_write_def)

lemma universal_newlines_id: "CR \<notin> set t \<Longrightarrow> universal_newlines t = t"
  by (induction t rule: universal_newlines.induct) auto

lemma split_lines_line:
  "NL \<notin> set b \<Longrightarrow> split_lines cur (b @ NL # rest) = (cur @ b @ [NL]) # split_lines [] rest"
  by (induction b arbitrary: cur) auto

lemma proper_lineD:
  assumes "proper_line l"
  obtains b where "l = b @ [NL]" "NL \<notin> set b" "CR \<notin> set l"
proof -
  from assms have "l = butlast l @ [NL]" "NL \<notin> set (butlast l)" "CR \<notin> set l"
    by (auto simp: proper_line_def dest: append_butlast_last_id)
  then show ?thesis using that by blast
qed

lemma split_lines_proper:
  "proper_line l \<Longrightarrow> split_lines [] (l @ rest) = l # split_lines [] rest"
  by (erule proper_lineD) (simp add: split_lines_line)

lemma split_lines_concat:
  "\<forall>l\<in>set ls. proper_line l \<Longrightarrow> split_lines [] (concat ls) = ls"
  by (induction ls) (simp_all add: split_lines_proper)

lemma readlines_concat:
  assumes "\<forall>l\<in>set ls. proper_line l"
  shows "readlines (concat ls) = ls"
proof -
  have "CR \<notin> set (concat ls)"
    using assms by (auto simp: proper_line_def)
  then show ?thesis
    using assms by (simp add: readlines_def universal_newlines_id split_lines_concat)
qed

lemma write_region_lines:
  "write_region markers custom file = file @ concat (region_lines markers custom)"
  by (cases markers) (simp add: write_region_eq region_lines_def)

lemma write_piece_lines:
  "write_piece sc file p = file @ concat (segment_lines (piece_segment (func_bods sc) p))"
  by (cases p) (simp_all add: foldl_file_write write_custom_body_eq)

lemma foldl_write_piece:
  "foldl (write_piece sc) out ps =
     out @ concat (concat (map (\<lambda>p. segment_lines (piece_segment (func_bods sc) p)) ps))"
  by (induction ps arbitrary: out) (simp_all add: write_piece_lines)

lemma impl_c_write_lines:
  "impl_c_write sc hdr incs pieces = concat (impl_c_lines sc hdr incs pieces)"
  by (simp add: impl_c_write_def impl_c_lines_def foldl_write_piece foldl_file_write
      write_custom_includes_def write_custom_functions_def write_region_lines)

lemma impl_h_write_lines:
  "impl_h_write sc t0 t1 t2 t3 = concat (impl_h_lines sc t0 t1 t2 t3)"
  by (simp add: impl_h_write_def impl_h_lines_def foldl_file_write
      write_custom_includes_def write_custom_functions_def write_custom_type_enums_def
      write_region_lines)

lemma proper_NL: "proper_line [NL]" by code_simp
lemma proper_open_line: "proper_line open_line" by code_simp
lemma proper_close_line: "proper_line close_line" by code_simp
lemma proper_indicator_line: "proper_line indicator_line" by code_simp
lemma proper_includes_markers:
  "proper_line (fst make_custom_includes_markers @ [NL])"
  "proper_line (snd make_custom_includes_markers @ [NL])" by code_simp+
lemma proper_functions_markers:
  "proper_line (fst make_custom_functions_markers @ [NL])"
  "proper_line (snd make_custom_functions_markers @ [NL])" by code_simp+
lemma proper_type_enum_markers:
  "proper_line (fst make_custom_type_enum_markers @ [NL])"
  "proper_line (snd make_custom_type_enum_markers @ [NL])" by code_simp+

lemma proper_marker_line:
  "valid_name f \<Longrightarrow> proper_line (marker_line (marker_format ''START'' f))"
  "valid_name f \<Longrightarrow> proper_line (marker_line (marker_format ''STOP'' f))"
  by (simp_all add: proper_line_def marker_line_def marker_format_def valid_name_def butlast_append)

lemma proper_fence:
  "valid_name f \<Longrightarrow> \<forall>l\<in>set (fence (marker_format ''START'' f)). proper_line l"
  "valid_name f \<Longrightarrow> \<forall>l\<in>set (fence (marker_format ''STOP'' f)). proper_line l"
  by (simp_all add: fence_def proper_open_line proper_close_line proper_indicator_line
      proper_marker_line)

lemma proper_region_lines:
  "\<forall>l\<in>set custom. proper_line l \<Longrightarrow> proper_line (fst markers @ [NL]) \<Longrightarrow>
     proper_line (snd markers @ [NL]) \<Longrightarrow> \<forall>l\<in>set (region_lines markers custom). proper_line l"
  by (auto simp: region_lines_def proper_NL)

lemma strip_includes_markers:
  "strip (fst make_custom_includes_markers @ [NL]) = fst make_custom_includes_markers"
  "strip (snd make_custom_includes_markers @ [NL]) = snd make_custom_includes_markers"
  by code_simp+
lemma strip_functions_markers:
  "strip (fst make_custom_functions_markers @ [NL]) = fst make_custom_functions_markers"
  "strip (snd make_custom_functions_markers @ [NL]) = snd make_custom_functions_markers"
  by code_simp+
lemma strip_type_enum_markers:
  "strip (fst make_custom_type_enum_markers @ [NL]) = fst make_custom_type_enum_markers"
  "strip (snd make_custom_type_enum_markers @ [NL]) = snd make_custom_type_enum_markers"
  by code_simp+
lemma strip_NL_markers:
  "strip [NL] \<noteq> fst make_custom_functions_markers"
  "strip [NL] \<noteq> fst make_custom_type_enum_markers"
  "start_re (strip [NL]) = None"
  by code_simp+
lemma markers_nonempty:
  "fst make_custom_includes_markers \<noteq> []" "fst make_custom_functions_markers \<noteq> []"
  "fst make_custom_type_enum_markers \<noteq> []"
  by code_simp+

text \<open>One extraction on a queue whose file starts with the lines before the region, the
  region as the write side lays it out, and anything after it.\<close>

lemma find_in_queue_written:
  assumes "fst markers \<noteq> []"
    and "strip (fst markers @ [NL]) = fst markers" "strip (snd markers @ [NL]) = snd markers"
    and "\<forall>l\<in>set before. strip l \<noteq> fst markers" "\<forall>l\<in>set custom. strip l \<noteq> snd markers"
  shows "find_in_queue markers (fill_queue (before @ region_lines markers custom @ rest))
         = (custom, fill_queue ([NL] # rest))"
proof -
  obtain s e where m: "markers = (s, e)" by (cases markers)
  have "find_in_queue (s, e) (fill_queue (before @ (s @ [NL]) # custom @ (e @ [NL]) # [NL] # rest))
        = (custom, fill_queue ([NL] # rest))"
    by (rule find_in_queue_region) (use assms m in simp_all)
  then show ?thesis by (simp add: m region_lines_def)
qed


subsection \<open>Scraping what the write side wrote\<close>

lemma regions_pieces:
  "regions (map (piece_segment B) pieces) = map (\<lambda>f. (f, bods_get B f)) (body_names pieces)"
proof (induction pieces)
  case Nil
  then show ?case by (simp add: regions_def body_names_def)
next
  case (Cons p pieces)
  then show ?case by (cases p) (simp_all add: regions_def body_names_def)
qed

lemma captured_distinct:
  "distinct names \<Longrightarrow>
     concat (map snd (filter (\<lambda>r. fst r = g) (map (\<lambda>f. (f, h f)) names)))
       = (if g \<in> set names then h g else [])"
  by (induction names) auto

lemma captured_pieces:
  "distinct (body_names pieces) \<Longrightarrow>
     captured (map (piece_segment B) pieces) g
       = (if g \<in> set (body_names pieces) then bods_get B g else [])"
  by (simp add: captured_def regions_pieces captured_distinct)

lemma segment_ok_pieces:
  "\<forall>p\<in>set pieces. piece_ok B p \<Longrightarrow> \<forall>s\<in>set (map (piece_segment B) pieces). segment_ok s"
proof (induction pieces)
  case Nil
  then show ?case by simp
next
  case (Cons p pieces)
  then show ?case by (cases p) auto
qed

lemma proper_pieces:
  "\<forall>p\<in>set pieces. piece_ok B p \<Longrightarrow>
     \<forall>l\<in>set (concat (map (\<lambda>p. segment_lines (piece_segment B p)) pieces)). proper_line l"
proof (induction pieces)
  case Nil
  then show ?case by simp
next
  case (Cons p pieces)
  show ?case
  proof (cases p)
    case (Generated ls)
    with Cons show ?thesis by auto
  next
    case (Custom_body f)
    with Cons.prems have "valid_name f" "\<forall>l\<in>set (bods_get B f). proper_line l" by auto
    with Cons Custom_body proper_fence [of f] show ?thesis by auto
  qed
qed

lemma find_bodies_fwd:
  "find_func_custom_body_in_queue (fill_queue ls) = scan_bodies None [] ls"
  by (simp add: find_func_custom_body_in_queue_def fill_queue_rev body_loop_rev)

lemma scan_written_bodies:
  assumes "\<forall>p\<in>set pieces. piece_ok B p" "distinct (body_names pieces)"
  shows "\<exists>bods. find_func_custom_body_in_queue
             (fill_queue ([NL] # concat (map (\<lambda>p. segment_lines (piece_segment B p)) pieces)))
           = Inr bods
         \<and> fst ` set bods = set (body_names pieces)
         \<and> (\<forall>f\<in>set (body_names pieces). bods_get bods f = bods_get B f)"
proof -
  let ?segs = "Boiler [[NL]] # map (piece_segment B) pieces"
  have ok: "\<forall>s\<in>set ?segs. segment_ok s"
    using segment_ok_pieces [OF assms(1)] by (simp add: strip_NL_markers)
  from scan_segments [OF ok, of "[]"] obtain bods where
      b1: "scan_bodies None [] (concat (map segment_lines ?segs)) = Inr bods"
      and b2: "\<forall>g. bods_get bods g = captured ?segs g"
      and b3: "fst ` set bods = fst ` set (regions ?segs)"
    by (auto simp: bods_get_def)
  have lines: "concat (map segment_lines ?segs)
      = [NL] # concat (map (\<lambda>p. segment_lines (piece_segment B p)) pieces)"
    by (simp add: comp_def)
  have 1: "find_func_custom_body_in_queue
             (fill_queue ([NL] # concat (map (\<lambda>p. segment_lines (piece_segment B p)) pieces)))
           = Inr bods"
    unfolding find_bodies_fwd lines [symmetric] by (rule b1)
  have 2: "fst ` set bods = set (body_names pieces)"
    unfolding b3 by (simp add: regions_Cons regions_pieces image_image)
  have 3: "bods_get bods f = bods_get B f" if "f \<in> set (body_names pieces)" for f
    using that b2
    by (simp add: captured_Cons captured_pieces [OF assms(2)])
  from 1 2 3 show ?thesis by (intro exI [of _ bods]) simp
qed

lemma body_names_member: "Custom_body f \<in> set pieces \<Longrightarrow> f \<in> set (body_names pieces)"
  by (induction pieces) (auto simp: body_names_def)

lemma impl_c_lines_cong:
  assumes "includes_lines sc' = includes_lines sc" "functions_lines sc' = functions_lines sc"
    and "\<forall>f\<in>set (body_names pieces). bods_get (func_bods sc') f = bods_get (func_bods sc) f"
  shows "impl_c_lines sc' hdr incs pieces = impl_c_lines sc hdr incs pieces"
proof -
  have m: "map (\<lambda>p. segment_lines (piece_segment (func_bods sc') p)) pieces
      = map (\<lambda>p. segment_lines (piece_segment (func_bods sc) p)) pieces"
  proof (rule map_cong [OF refl])
    fix p assume pin: "p \<in> set pieces"
    show "segment_lines (piece_segment (func_bods sc') p)
        = segment_lines (piece_segment (func_bods sc) p)"
    proof (cases p)
      case (Generated ls)
      then show ?thesis by simp
    next
      case (Custom_body f)
      with pin have "f \<in> set (body_names pieces)" by (simp add: body_names_member)
      with assms(3) have "bods_get (func_bods sc') f = bods_get (func_bods sc) f" by blast
      with Custom_body show ?thesis by simp
    qed
  qed
  show ?thesis unfolding impl_c_lines_def assms(1,2) m by (rule refl)
qed

lemma impl_c_roundtrip:
  assumes ri: "region_ok make_custom_includes_markers hdr (includes_lines sc)"
    and rf: "region_ok make_custom_functions_markers incs (functions_lines sc)"
    and ps: "\<forall>p\<in>set pieces. piece_ok (func_bods sc) p"
    and d: "distinct (body_names pieces)"
    and fs: "fs path = Some (impl_c_write sc hdr incs pieces)"
  shows "\<exists>sc'. C_Scraper fs (Some path) = Inr sc'
           \<and> includes_lines sc' = includes_lines sc
           \<and> functions_lines sc' = functions_lines sc
           \<and> fst ` set (func_bods sc') = set (body_names pieces)
           \<and> (\<forall>f\<in>set (body_names pieces).
                  bods_get (func_bods sc') f = bods_get (func_bods sc) f)
           \<and> impl_c_write sc' hdr incs pieces = impl_c_write sc hdr incs pieces"
proof -
  let ?body = "concat (map (\<lambda>p. segment_lines (piece_segment (func_bods sc) p)) pieces)"
  let ?rest2 = "region_lines make_custom_functions_markers (functions_lines sc) @ ?body"
  let ?rest1 = "incs @ ?rest2"
  have p1: "\<forall>l\<in>set hdr. proper_line l" and p2: "\<forall>l\<in>set incs. proper_line l"
    and p3: "\<forall>l\<in>set (includes_lines sc). proper_line l"
    and p4: "\<forall>l\<in>set (functions_lines sc). proper_line l"
    using ri rf unfolding region_ok_def by blast+
  note p5 = proper_region_lines [OF p3 proper_includes_markers]
  note p6 = proper_region_lines [OF p4 proper_functions_markers]
  note p7 = proper_pieces [OF ps]
  have proper: "\<forall>l\<in>set (impl_c_lines sc hdr incs pieces). proper_line l"
    unfolding impl_c_lines_def set_append ball_Un
    using p1 p2 p5 p6 p7 by (intro conjI)
  have read: "readlines (impl_c_write sc hdr incs pieces) = impl_c_lines sc hdr incs pieces"
    unfolding impl_c_write_lines by (rule readlines_concat [OF proper])
  have q: "impl_c_lines sc hdr incs pieces
      = hdr @ region_lines make_custom_includes_markers (includes_lines sc) @ ?rest1"
    by (simp add: impl_c_lines_def)
  have r1: "find_custom_includes_in_queue (fill_queue (impl_c_lines sc hdr incs pieces))
      = (includes_lines sc, fill_queue ([NL] # ?rest1))"
    unfolding q find_custom_includes_in_queue_def
    by (rule find_in_queue_written)
      (use ri in \<open>simp_all add: region_ok_def markers_nonempty strip_includes_markers\<close>)
  have r2: "find_custom_functions_in_queue (fill_queue (([NL] # incs) @ ?rest2))
      = (functions_lines sc, fill_queue ([NL] # ?body))"
    unfolding find_custom_functions_in_queue_def
    by (rule find_in_queue_written)
      (use rf in \<open>simp_all add: region_ok_def markers_nonempty strip_functions_markers
         strip_NL_markers\<close>)
  from scan_written_bodies [OF ps d] obtain bods where
      b: "find_func_custom_body_in_queue (fill_queue ([NL] # ?body)) = Inr bods
        \<and> fst ` set bods = set (body_names pieces)
        \<and> (\<forall>f\<in>set (body_names pieces). bods_get bods f = bods_get (func_bods sc) f)" ..
  from b have b1: "find_func_custom_body_in_queue (fill_queue ([NL] # ?body)) = Inr bods"
    by (rule conjunct1)
  from b have b2: "fst ` set bods = set (body_names pieces)"
    by (elim conjE)
  from b have b3: "\<forall>f\<in>set (body_names pieces). bods_get bods f = bods_get (func_bods sc) f"
    by (elim conjE)
  let ?sc' = "\<lparr>filename = Some path, includes_lines = includes_lines sc,
               functions_lines = functions_lines sc, func_bods = bods\<rparr>"
  have c: "C_Scraper fs (Some path) = Inr ?sc'"
    using r2 by (simp add: C_Scraper_def fs read r1 b1)
  have w: "impl_c_write ?sc' hdr incs pieces = impl_c_write sc hdr incs pieces"
    unfolding impl_c_write_lines
    by (rule arg_cong [where f = concat], rule impl_c_lines_cong) (use b3 in simp_all)
  show ?thesis
    by (intro exI [of _ ?sc'] conjI) (use c b2 b3 w in simp_all)
qed

lemma impl_h_roundtrip:
  assumes ri: "region_ok make_custom_includes_markers t0 (includes_lines sc)"
    and re: "region_ok make_custom_type_enum_markers t1 (type_enums sc)"
    and rf: "region_ok make_custom_functions_markers t2 (functions_lines sc)"
    and t3: "\<forall>l\<in>set t3. proper_line l"
    and fs: "fs path = Some (impl_h_write sc t0 t1 t2 t3)"
  shows "H_Scraper fs (Some path) =
           Inr \<lparr>filename = Some path, includes_lines = includes_lines sc,
                functions_lines = functions_lines sc, type_enums = type_enums sc\<rparr>"
proof -
  let ?rest3 = "region_lines make_custom_functions_markers (functions_lines sc) @ t3"
  let ?rest2 = "region_lines make_custom_type_enum_markers (type_enums sc) @ t2 @ ?rest3"
  let ?rest1 = "t1 @ ?rest2"
  have p1: "\<forall>l\<in>set t0. proper_line l" and p2: "\<forall>l\<in>set t1. proper_line l"
    and p3: "\<forall>l\<in>set t2. proper_line l"
    and p4: "\<forall>l\<in>set (includes_lines sc). proper_line l"
    and p5: "\<forall>l\<in>set (type_enums sc). proper_line l"
    and p6: "\<forall>l\<in>set (functions_lines sc). proper_line l"
    using ri re rf unfolding region_ok_def by blast+
  note q1 = proper_region_lines [OF p4 proper_includes_markers]
  note q2 = proper_region_lines [OF p5 proper_type_enum_markers]
  note q3 = proper_region_lines [OF p6 proper_functions_markers]
  have proper: "\<forall>l\<in>set (impl_h_lines sc t0 t1 t2 t3). proper_line l"
    unfolding impl_h_lines_def set_append ball_Un
    using p1 p2 p3 q1 q2 q3 t3 by (intro conjI)
  have read: "readlines (impl_h_write sc t0 t1 t2 t3) = impl_h_lines sc t0 t1 t2 t3"
    unfolding impl_h_write_lines by (rule readlines_concat [OF proper])
  have q: "impl_h_lines sc t0 t1 t2 t3
      = t0 @ region_lines make_custom_includes_markers (includes_lines sc) @ ?rest1"
    by (simp add: impl_h_lines_def)
  have r1: "find_custom_includes_in_queue (fill_queue (impl_h_lines sc t0 t1 t2 t3))
      = (includes_lines sc, fill_queue ([NL] # ?rest1))"
    unfolding q find_custom_includes_in_queue_def
    by (rule find_in_queue_written)
      (use ri in \<open>simp_all add: region_ok_def markers_nonempty strip_includes_markers\<close>)
  have r2: "find_type_enums_in_queue (fill_queue (([NL] # t1) @ ?rest2))
      = (type_enums sc, fill_queue ([NL] # t2 @ ?rest3))"
    unfolding find_type_enums_in_queue_def
    by (rule find_in_queue_written)
      (use re in \<open>simp_all add: region_ok_def markers_nonempty strip_type_enum_markers
         strip_NL_markers\<close>)
  have r3: "find_custom_functions_in_queue (fill_queue (([NL] # t2) @ ?rest3))
      = (functions_lines sc, fill_queue ([NL] # t3))"
    unfolding find_custom_functions_in_queue_def
    by (rule find_in_queue_written)
      (use rf in \<open>simp_all add: region_ok_def markers_nonempty strip_functions_markers
         strip_NL_markers\<close>)
  show ?thesis
    using r2 r3 by (simp add: H_Scraper_def fs read r1)
qed


section \<open>The SQL writer: lemmas\<close>

subsection \<open>No method of the assembly raises the error of the finalization step\<close>

lemma nu_return: "never_undefined (gen_return x)"
  by (simp add: never_undefined_def gen_return_def)

lemma nu_raise: "(\<And>U. e \<noteq> RuntimeError_undefined U) \<Longrightarrow> never_undefined (gen_raise e)"
  by (simp add: never_undefined_def gen_raise_def)

lemma nu_bind:
  "never_undefined m \<Longrightarrow> (\<And>x. never_undefined (f x)) \<Longrightarrow> never_undefined (gen_bind m f)"
  by (auto simp: never_undefined_def gen_bind_def split: sum.splits)

lemma nu_seq: "never_undefined m \<Longrightarrow> never_undefined k \<Longrightarrow> never_undefined (gen_seq m k)"
  by (simp add: gen_seq_def nu_bind)

lemma nu_of: "not_undefined r \<Longrightarrow> never_undefined (gen_of r)"
  by (cases r) (auto simp: gen_of_def not_undefined_def never_undefined_def gen_raise_def gen_return_def)

lemma nu_emit: "never_undefined (emit ls)"
  by (simp add: never_undefined_def emit_def)

lemma nu_var_name: "never_undefined (var_name n d)"
  by (simp add: never_undefined_def var_name_def Let_def)

lemma nu_var_name_unused: "never_undefined (var_name_unused n d)"
  by (simp add: var_name_unused_def nu_seq nu_var_name nu_return)

lemma nu_for_each: "(\<And>x. never_undefined (f x)) \<Longrightarrow> never_undefined (for_each f xs)"
  by (induction xs) (simp_all add: nu_return nu_seq)

lemma nu_for_collect: "(\<And>x. never_undefined (f x)) \<Longrightarrow> never_undefined (for_collect f xs)"
  by (induction xs) (simp_all add: nu_return nu_bind)

lemma nu_if:
  "never_undefined m \<Longrightarrow> never_undefined k \<Longrightarrow> never_undefined (if c then m else k)"
  by simp

lemma nu_case_prod:
  "(\<And>x y. never_undefined (f x y)) \<Longrightarrow> never_undefined (case_prod f p)"
  by (cases p) simp

lemma nu_case_option:
  "never_undefined m \<Longrightarrow> (\<And>x. never_undefined (f x)) \<Longrightarrow>
     never_undefined (case_option m f v)"
  by (cases v) simp_all

lemma nu_state: "(\<And>w. never_undefined (f w)) \<Longrightarrow> never_undefined (\<lambda>w. f w w)"
  by (simp add: never_undefined_def)

lemma not_undefined_coll_field: "not_undefined (coll_field c key)"
  by (simp add: not_undefined_def coll_field_def split: option.splits)

lemma not_undefined_get_sname: "not_undefined (get_sname c)"
  by (simp add: get_sname_def not_undefined_coll_field)

lemma not_undefined_get_lname: "not_undefined (get_lname c)"
  by (simp add: get_lname_def not_undefined_coll_field)

lemma not_undefined_ari_type_enum: "not_undefined (ari_type_enum c)"
  by (simp add: ari_type_enum_def not_undefined_coll_field)

lemma not_undefined_hex_digit_value: "not_undefined (hex_digit_value s)"
  unfolding not_undefined_def hex_digit_value_def by (simp split: option.splits)

lemma not_undefined_make_ari_name: "not_undefined (make_ari_name n c item)"
  using not_undefined_get_sname [of c]
  by (auto simp: not_undefined_def make_ari_name_def make_ari_name_from_str_def split: sum.splits)

lemma not_undefined_list_index: "not_undefined (list_index xs i)"
  by (simp add: not_undefined_def list_index_def)

lemma not_undefined_sname_of: "not_undefined (sname_of c)"
  using not_undefined_get_sname
  by (cases c) (auto simp: sname_of_def not_undefined_def)

lemma not_undefined_name_get_coll_from: "not_undefined (name_get_coll_from ks n)"
proof (induction ks)
  case Nil
  show ?case by (simp add: not_undefined_def)
next
  case (Cons k ks)
  show ?case
    using Cons not_undefined_coll_field [of k "''lname''"] not_undefined_coll_field [of k "''sname''"]
    by (auto simp: not_undefined_def split: sum.splits)
qed

lemma not_undefined_ari_get_names: "not_undefined (ari_get_names j)"
  using not_undefined_name_get_coll_from [of all_colls]
  by (auto simp: not_undefined_def ari_get_names_def name_get_coll_def split: sum.splits)

lemmas nu_intros =
  nu_return nu_bind nu_seq nu_emit nu_var_name nu_var_name_unused nu_for_each nu_for_collect
  nu_if nu_case_prod nu_case_option nu_of
  not_undefined_get_sname not_undefined_get_lname not_undefined_ari_type_enum
  not_undefined_hex_digit_value not_undefined_make_ari_name not_undefined_list_index
  not_undefined_sname_of not_undefined_ari_get_names

lemma nu_make_ari: "never_undefined (make_ari a c item)"
  unfolding make_ari_def by (intro nu_intros)

lemma nu_make_sql_ids: "never_undefined (make_sql_ids t d)"
  unfolding make_sql_ids_def by (intro nu_intros)

lemma nu_obj_metadata_template: "never_undefined (create_insert_obj_metadata_template c)"
  unfolding create_insert_obj_metadata_template_def
  by (intro nu_intros) (simp add: never_undefined_def)

lemma nu_formal_parmspec_templates:
  "never_undefined (create_insert_formal_parmspec_templates d)"
  unfolding create_insert_formal_parmspec_templates_def by (intro nu_intros)

lemma nu_tnvc_templates: "never_undefined (create_insert_tnvc_templates c n)"
  unfolding create_insert_tnvc_templates_def by (intro nu_intros)

lemma nu_ac_id_template: "never_undefined (create_insert_ac_id_template c d)"
  unfolding create_insert_ac_id_template_def by (intro nu_intros)

lemma nu_make_definition_ids: "never_undefined (make_definition_ids a item)"
  unfolding make_definition_ids_def Let_def
  by (intro nu_intros nu_make_sql_ids nu_raise) simp

lemmas nu_helpers =
  nu_make_ari nu_make_sql_ids nu_obj_metadata_template nu_formal_parmspec_templates
  nu_tnvc_templates nu_ac_id_template nu_make_definition_ids

lemma nu_write_metadata_function: "never_undefined (write_metadata_function a)"
  unfolding write_metadata_function_def Let_def
  by (intro nu_intros nu_helpers) (simp add: never_undefined_def emit_def)

lemma nu_write_edd_functions: "never_undefined (write_edd_functions a)"
  unfolding write_edd_functions_def Let_def by (intro nu_intros nu_helpers)

lemma nu_write_oper_functions: "never_undefined (write_oper_functions a)"
  unfolding write_oper_functions_def Let_def by (intro nu_intros nu_helpers)

lemma nu_write_var_functions: "never_undefined (write_var_functions a)"
  unfolding write_var_functions_def Let_def by (intro nu_intros nu_helpers)

lemma nu_write_tblt_functions: "never_undefined (write_tblt_functions a)"
  unfolding write_tblt_functions_def Let_def by (intro nu_intros nu_helpers)

lemma nu_handle_report_fp_ap: "never_undefined (handle_report_fp_ap a item r)"
  unfolding handle_report_fp_ap_def Let_def
  by (intro nu_intros nu_helpers nu_raise) simp

lemma nu_write_rptt_functions: "never_undefined (write_rptt_functions a)"
  unfolding write_rptt_functions_def Let_def
  by (intro nu_intros nu_helpers nu_handle_report_fp_ap)

lemma nu_write_ctrl_functions: "never_undefined (write_ctrl_functions a)"
  unfolding write_ctrl_functions_def Let_def by (intro nu_intros nu_helpers)

lemma nu_write_gen_const_functions: "never_undefined (write_gen_const_functions a objs c)"
  unfolding write_gen_const_functions_def Let_def by (intro nu_intros nu_helpers)

lemma nu_write_const_functions: "never_undefined (write_const_functions a)"
  unfolding write_const_functions_def by (intro nu_intros nu_write_gen_const_functions)

lemma nu_write_mdat_functions: "never_undefined (write_mdat_functions a)"
  unfolding write_mdat_functions_def by (intro nu_intros nu_write_gen_const_functions)

lemma nu_write_mac_functions: "never_undefined (write_mac_functions a)"
  unfolding write_mac_functions_def by (intro nu_intros nu_helpers nu_raise) simp

lemma nu_assemble: "never_undefined (assemble a)"
  unfolding assemble_def
  by (intro nu_seq nu_write_metadata_function nu_write_mdat_functions nu_write_edd_functions
        nu_write_oper_functions nu_write_var_functions nu_write_tblt_functions
        nu_write_rptt_functions nu_write_ctrl_functions nu_write_const_functions
        nu_write_mac_functions)


subsection \<open>Running a method on a writer\<close>

lemma gen_bind_apply:
  "gen_bind m f w = (case m w of Inl e \<Rightarrow> Inl e | Inr (x, w') \<Rightarrow> f x w')"
  by (simp add: gen_bind_def)

lemma gen_seq_apply:
  "gen_seq m k w = (case m w of Inl e \<Rightarrow> Inl e | Inr (x, w') \<Rightarrow> k w')"
  by (simp add: gen_seq_def gen_bind_def)

lemma gen_return_apply: "gen_return x w = Inr (x, w)"
  by (simp add: gen_return_def)

lemma gen_raise_apply: "gen_raise e w = Inl e"
  by (simp add: gen_raise_def)

lemma gen_of_apply: "gen_of r w = (case r of Inl e \<Rightarrow> Inl e | Inr x \<Rightarrow> Inr (x, w))"
  by (simp add: gen_of_def gen_raise_def gen_return_def split: sum.splits)

lemma emit_apply: "emit ls w = Inr ((), w\<lparr>body := body w @ ls\<rparr>)"
  by (simp add: emit_def)

lemma var_name_apply:
  "var_name n (Some True) w = Inr (var_prefix w @ casefold n, w\<lparr>vars_def := insert (casefold n) (vars_def w)\<rparr>)"
  "var_name n (Some False) w = Inr (var_prefix w @ casefold n, w\<lparr>vars_use := insert (casefold n) (vars_use w)\<rparr>)"
  "var_name n None w = Inr (var_prefix w @ casefold n, w)"
  by (simp_all add: var_name_def Let_def)

lemmas eval_defs = gen_bind_apply gen_seq_apply gen_return_apply gen_raise_apply gen_of_apply
  emit_apply var_name_apply
  var_name_unused_def Let_def casefold_def lower_def upper_def lower_char_def
  upper_char_def digit_char_def replace_char_def fmt_def escape_description_sql_def
  make_ari_def make_sql_ids_def make_ari_name_def make_ari_name_from_str_def
  get_sname_def get_lname_def ari_type_enum_def coll_field_def hex_digit_value_def
  create_insert_obj_metadata_template_def create_insert_formal_parmspec_templates_def
  create_insert_tnvc_templates_def create_insert_ac_id_template_def
  definition_name_def make_definition_ids_def make_fp_id_def

lemmas write_defs = assemble_def write_metadata_function_def write_mdat_functions_def
  write_edd_functions_def write_oper_functions_def write_var_functions_def
  write_tblt_functions_def write_rptt_functions_def write_ctrl_functions_def
  write_const_functions_def write_gen_const_functions_def write_mac_functions_def
  handle_report_fp_ap_def val_or_none_def get_child_def ari_get_names_def name_get_coll_def
  all_colls_def list_index_def sname_of_def

lemma assemble_before_mac: "assemble a = gen_seq (before_mac a) (write_mac_functions a)"
  by (rule ext) (simp add: assemble_def before_mac_def gen_seq_def gen_bind_def split: sum.splits)

lemma write_mac_functions_raises:
  assumes "mac a \<noteq> []"
  shows "write_mac_functions a w = Inl NameError"
proof -
  obtain x xs where m: "mac a = x # xs"
    using assms by (cases "mac a") auto
  show ?thesis
    by (simp add: write_mac_functions_def m eval_defs)
qed

lemma write_mac_functions_empty:
  assumes "mac a = []"
  shows "\<exists>w'. write_mac_functions a w = Inr ((), w')"
  by (simp add: write_mac_functions_def assms eval_defs)


section \<open>The claims about the scrape engine\<close>

subsection \<open>C1: round trip of the custom regions\<close>

text \<open>
  Claim C1, as amended.  Let a file be written by the write side around generated text:
  for the source flavor the header lines, the custom includes, the generated include
  lines, the custom functions, and then generated lines with one custom body per
  function name; for the header flavor the defines, the custom includes, generated
  lines, the custom type enums, generated lines, the custom functions, generated lines.
  Suppose that every written line is a complete line (it ends with its only newline and
  has no carriage return), that no generated line before a region, stripped, is the
  start marker of that region and no content line of a singleton region, stripped, is its
  stop marker, that no generated line of the body part matches the start pattern, that no
  content line of a body, stripped, is the indicator line, and that the function names
  are distinct, non-empty and on one line.  Then a new scraper of the same flavor on that
  text raises nothing, each region it captures is the list that was written (the body
  map has exactly the written names as keys), and writing again from the new scraper
  gives the same text, byte for byte.
\<close>

theorem c1_written_file_scrapes_back:
  "(region_ok make_custom_includes_markers hdr (includes_lines sc)
      \<and> region_ok make_custom_functions_markers incs (functions_lines sc)
      \<and> (\<forall>p\<in>set pieces. piece_ok (func_bods sc) p)
      \<and> distinct (body_names pieces)
      \<and> fs path = Some (impl_c_write sc hdr incs pieces)
    \<longrightarrow> (\<exists>sc'. C_Scraper fs (Some path) = Inr sc'
           \<and> includes_lines sc' = includes_lines sc
           \<and> functions_lines sc' = functions_lines sc
           \<and> fst ` set (func_bods sc') = set (body_names pieces)
           \<and> (\<forall>f\<in>set (body_names pieces).
                  bods_get (func_bods sc') f = bods_get (func_bods sc) f)
           \<and> impl_c_write sc' hdr incs pieces = impl_c_write sc hdr incs pieces))
   \<and> (region_ok make_custom_includes_markers t0 (includes_lines sh)
      \<and> region_ok make_custom_type_enum_markers t1 (type_enums sh)
      \<and> region_ok make_custom_functions_markers t2 (functions_lines sh)
      \<and> (\<forall>l\<in>set t3. proper_line l)
      \<and> fsh hpath = Some (impl_h_write sh t0 t1 t2 t3)
    \<longrightarrow> (\<exists>sh'. H_Scraper fsh (Some hpath) = Inr sh'
           \<and> includes_lines sh' = includes_lines sh
           \<and> type_enums sh' = type_enums sh
           \<and> functions_lines sh' = functions_lines sh
           \<and> impl_h_write sh' t0 t1 t2 t3 = impl_h_write sh t0 t1 t2 t3))"
proof (intro conjI impI)
  assume "region_ok make_custom_includes_markers hdr (includes_lines sc)
      \<and> region_ok make_custom_functions_markers incs (functions_lines sc)
      \<and> (\<forall>p\<in>set pieces. piece_ok (func_bods sc) p)
      \<and> distinct (body_names pieces)
      \<and> fs path = Some (impl_c_write sc hdr incs pieces)"
  then show "\<exists>sc'. C_Scraper fs (Some path) = Inr sc'
           \<and> includes_lines sc' = includes_lines sc
           \<and> functions_lines sc' = functions_lines sc
           \<and> fst ` set (func_bods sc') = set (body_names pieces)
           \<and> (\<forall>f\<in>set (body_names pieces).
                  bods_get (func_bods sc') f = bods_get (func_bods sc) f)
           \<and> impl_c_write sc' hdr incs pieces = impl_c_write sc hdr incs pieces"
    by (elim conjE) (rule impl_c_roundtrip)
next
  assume h: "region_ok make_custom_includes_markers t0 (includes_lines sh)
      \<and> region_ok make_custom_type_enum_markers t1 (type_enums sh)
      \<and> region_ok make_custom_functions_markers t2 (functions_lines sh)
      \<and> (\<forall>l\<in>set t3. proper_line l)
      \<and> fsh hpath = Some (impl_h_write sh t0 t1 t2 t3)"
  let ?sh' = "\<lparr>filename = Some hpath, includes_lines = includes_lines sh,
                functions_lines = functions_lines sh, type_enums = type_enums sh\<rparr>"
  from h have r: "H_Scraper fsh (Some hpath) = Inr ?sh'"
    by (elim conjE) (rule impl_h_roundtrip)
  have w: "impl_h_write ?sh' t0 t1 t2 t3 = impl_h_write sh t0 t1 t2 t3"
    by (simp add: impl_h_write_lines impl_h_lines_def)
  show "\<exists>sh'. H_Scraper fsh (Some hpath) = Inr sh'
           \<and> includes_lines sh' = includes_lines sh
           \<and> type_enums sh' = type_enums sh
           \<and> functions_lines sh' = functions_lines sh
           \<and> impl_h_write sh' t0 t1 t2 t3 = impl_h_write sh t0 t1 t2 t3"
    by (intro exI [of _ ?sh'] conjI) (use r w in simp_all)
qed

theorem c1_written_file_scrapes_back_witness:
  "(\<exists>sc'. C_Scraper
             [''agent/adm_test_adm_impl.c'' \<mapsto>
                impl_c_write example_c_scraper example_header example_includes_text example_pieces]
             (Some ''agent/adm_test_adm_impl.c'') = Inr sc'
           \<and> includes_lines sc' = includes_lines example_c_scraper
           \<and> functions_lines sc' = functions_lines example_c_scraper
           \<and> fst ` set (func_bods sc') = set (body_names example_pieces)
           \<and> (\<forall>f\<in>set (body_names example_pieces).
                  bods_get (func_bods sc') f = bods_get (func_bods example_c_scraper) f)
           \<and> impl_c_write sc' example_header example_includes_text example_pieces
               = impl_c_write example_c_scraper example_header example_includes_text example_pieces)
   \<and> (\<exists>sh'. H_Scraper
             [''agent/adm_test_adm_impl.h'' \<mapsto>
                impl_h_write example_h_scraper example_defines example_includes_text
                  example_includes_text example_declarations]
             (Some ''agent/adm_test_adm_impl.h'') = Inr sh'
           \<and> includes_lines sh' = includes_lines example_h_scraper
           \<and> type_enums sh' = type_enums example_h_scraper
           \<and> functions_lines sh' = functions_lines example_h_scraper
           \<and> impl_h_write sh' example_defines example_includes_text example_includes_text
                 example_declarations
               = impl_h_write example_h_scraper example_defines example_includes_text
                   example_includes_text example_declarations)"
proof -
  have c: "region_ok make_custom_includes_markers example_header (includes_lines example_c_scraper)
      \<and> region_ok make_custom_functions_markers example_includes_text
          (functions_lines example_c_scraper)
      \<and> (\<forall>p\<in>set example_pieces. piece_ok (func_bods example_c_scraper) p)
      \<and> distinct (body_names example_pieces)"
    by code_simp
  have h: "region_ok make_custom_includes_markers example_defines (includes_lines example_h_scraper)
      \<and> region_ok make_custom_type_enum_markers example_includes_text (type_enums example_h_scraper)
      \<and> region_ok make_custom_functions_markers example_includes_text
          (functions_lines example_h_scraper)
      \<and> (\<forall>l\<in>set example_declarations. proper_line l)"
    by code_simp
  from c h show ?thesis
    using c1_written_file_scrapes_back
      [of example_header example_c_scraper example_includes_text example_pieces
          "[''agent/adm_test_adm_impl.c'' \<mapsto>
             impl_c_write example_c_scraper example_header example_includes_text example_pieces]"
          "''agent/adm_test_adm_impl.c''"
          example_defines example_h_scraper example_includes_text example_includes_text
          example_declarations
          "[''agent/adm_test_adm_impl.h'' \<mapsto>
             impl_h_write example_h_scraper example_defines example_includes_text
               example_includes_text example_declarations]"
          "''agent/adm_test_adm_impl.h''"]
    by simp
qed

text \<open>The claim as stated fails: a hand-written line that, stripped, is the indicator
  line is written between the fences of \<open>setup\<close>, and the new scraper captures neither
  that line nor the one after it.\<close>

theorem c1_counterexample:
  "bods_get (func_bods (example_c_scraper
       \<lparr>func_bods := [(''setup'', [indicator_line, ''int x;'' @ [NL]])]\<rparr>)) ''setup''
     = [indicator_line, ''int x;'' @ [NL]]
   \<and> C_Scraper
       [''agent/adm_test_adm_impl.c'' \<mapsto>
          impl_c_write
            (example_c_scraper \<lparr>func_bods := [(''setup'', [indicator_line, ''int x;'' @ [NL]])]\<rparr>)
            example_header example_includes_text example_pieces]
       (Some ''agent/adm_test_adm_impl.c'')
     = Inr \<lparr>filename = Some ''agent/adm_test_adm_impl.c'',
            includes_lines = [''#include <math.h>'' @ [NL]],
            functions_lines = [''static int twice(int x) { return 2 * x; }'' @ [NL]],
            func_bods = [(''setup'', []), (''cleanup'', [])]\<rparr>"
  by code_simp


subsection \<open>C2: the per-function map keeps the regions apart\<close>

lemma C_Scraper_segments:
  assumes segs: "\<forall>s\<in>set segs. segment_ok s"
    and h: "\<forall>l\<in>set hdr. strip l \<noteq> fst make_custom_includes_markers"
    and i: "\<forall>l\<in>set inc. strip l \<noteq> snd make_custom_includes_markers"
    and m: "\<forall>l\<in>set mid. strip l \<noteq> fst make_custom_functions_markers"
    and f: "\<forall>l\<in>set fns. strip l \<noteq> snd make_custom_functions_markers"
    and fs: "fs p = Some src"
    and read: "readlines src = c_file_lines hdr inc mid fns segs"
  shows "\<exists>bods. C_Scraper fs (Some p)
             = Inr \<lparr>filename = Some p, includes_lines = inc, functions_lines = fns,
                    func_bods = bods\<rparr>
           \<and> fst ` set bods = fst ` set (regions segs)
           \<and> (\<forall>g. bods_get bods g = captured segs g)"
proof -
  let ?body = "concat (map segment_lines segs)"
  let ?rest2 = "region_lines make_custom_functions_markers fns @ ?body"
  let ?rest1 = "mid @ ?rest2"
  let ?segs = "Boiler [[NL]] # segs"
  have q: "c_file_lines hdr inc mid fns segs
      = hdr @ region_lines make_custom_includes_markers inc @ ?rest1"
    by (simp add: c_file_lines_def)
  have r1: "find_custom_includes_in_queue (fill_queue (c_file_lines hdr inc mid fns segs))
      = (inc, fill_queue ([NL] # ?rest1))"
    unfolding q find_custom_includes_in_queue_def
    by (rule find_in_queue_written)
      (use h i in \<open>simp_all add: markers_nonempty strip_includes_markers\<close>)
  have r2: "find_custom_functions_in_queue (fill_queue (([NL] # mid) @ ?rest2))
      = (fns, fill_queue ([NL] # ?body))"
    unfolding find_custom_functions_in_queue_def
    by (rule find_in_queue_written)
      (use m f in \<open>simp_all add: markers_nonempty strip_functions_markers strip_NL_markers\<close>)
  have ok: "\<forall>s\<in>set ?segs. segment_ok s"
    using segs by (simp add: strip_NL_markers)
  from scan_segments [OF ok, of "[]"] obtain bods where
      b1: "scan_bodies None [] (concat (map segment_lines ?segs)) = Inr bods"
      and b2: "\<forall>g. bods_get bods g = captured ?segs g"
      and b3: "fst ` set bods = fst ` set (regions ?segs)"
    by (auto simp: bods_get_def)
  have b: "find_func_custom_body_in_queue (fill_queue ([NL] # ?body)) = Inr bods"
    using b1 by (simp add: find_bodies_fwd)
  have c: "C_Scraper fs (Some p)
      = Inr \<lparr>filename = Some p, includes_lines = inc, functions_lines = fns, func_bods = bods\<rparr>"
    using r2 by (simp add: C_Scraper_def fs read r1 b)
  from c b2 b3 show ?thesis
    by (intro exI [of _ bods]) (simp add: captured_Cons regions_Cons)
qed

text \<open>
  Claim C2, as amended.  Take a source file that the constructor \<^verbatim>\<open>C_Scraper\<close> reads as
  these lines: the custom-includes pair and then the custom-functions pair, each after
  lines that are not its start marker and holding lines that are not its stop marker;
  after the two pairs, generated lines without a start marker and per-function regions
  (start fence, content without an indicator line, stop fence).  Then the constructor
  succeeds and its body map holds, under each name \<open>g\<close>, exactly the content lines of the
  regions named \<open>g\<close>, in file order, and has no other key.  So the content of a region
  named \<open>f\<close> contributes nothing to the entry of another name \<open>g\<close>, and
  \<^verbatim>\<open>write_custom_body\<close> for \<open>g\<close> emits the start fence, exactly the lines captured under
  \<open>g\<close>, and the stop fence: the two fences only when the map has no entry for \<open>g\<close>.
\<close>

theorem c2_regions_are_kept_apart:
  assumes "\<forall>s\<in>set segs. segment_ok s"
    and "\<forall>l\<in>set hdr. strip l \<noteq> fst make_custom_includes_markers"
    and "\<forall>l\<in>set inc. strip l \<noteq> snd make_custom_includes_markers"
    and "\<forall>l\<in>set mid. strip l \<noteq> fst make_custom_functions_markers"
    and "\<forall>l\<in>set fns. strip l \<noteq> snd make_custom_functions_markers"
    and "fs p = Some src"
    and "readlines src = c_file_lines hdr inc mid fns segs"
  shows "\<exists>sc. C_Scraper fs (Some p) = Inr sc
           \<and> includes_lines sc = inc \<and> functions_lines sc = fns
           \<and> fst ` set (func_bods sc) = fst ` set (regions segs)
           \<and> (\<forall>g. bods_get (func_bods sc) g = captured segs g)
           \<and> (\<forall>f g cs pre post. f \<noteq> g \<longrightarrow> segs = pre @ Region f cs # post \<longrightarrow>
                  bods_get (func_bods sc) g = captured (pre @ post) g)
           \<and> (\<forall>out g.
                  write_custom_body sc out g =
                    out @ concat (fence (marker_format ''START'' g)) @
                      concat (captured segs g) @ concat (fence (marker_format ''STOP'' g)))
           \<and> (\<forall>out g. map_of (func_bods sc) g = None \<longrightarrow>
                  write_custom_body sc out g =
                    out @ concat (fence (marker_format ''START'' g)) @
                      concat (fence (marker_format ''STOP'' g)))"
proof -
  have "\<exists>bods. C_Scraper fs (Some p)
             = Inr \<lparr>filename = Some p, includes_lines = inc, functions_lines = fns,
                    func_bods = bods\<rparr>
           \<and> fst ` set bods = fst ` set (regions segs)
           \<and> (\<forall>g. bods_get bods g = captured segs g)"
    using assms by (rule C_Scraper_segments [of segs hdr inc mid fns fs p src])
  then obtain bods where
      1: "C_Scraper fs (Some p)
            = Inr \<lparr>filename = Some p, includes_lines = inc, functions_lines = fns,
                   func_bods = bods\<rparr>"
      and 3: "fst ` set bods = fst ` set (regions segs)"
      and 2: "\<forall>g. bods_get bods g = captured segs g"
    by blast
  let ?sc = "\<lparr>filename = Some p, includes_lines = inc, functions_lines = fns, func_bods = bods\<rparr>"
  have 4: "bods_get bods g = captured (pre @ post) g"
    if "f \<noteq> g" "segs = pre @ Region f cs # post" for f g cs pre post
    using that 2 by (simp add: captured_other)
  have 5: "write_custom_body ?sc out g =
             out @ concat (fence (marker_format ''START'' g)) @
               concat (captured segs g) @ concat (fence (marker_format ''STOP'' g))"
    for out g
    using 2 by (simp add: write_custom_body_eq)
  have 6: "write_custom_body ?sc out g =
             out @ concat (fence (marker_format ''START'' g)) @
               concat (fence (marker_format ''STOP'' g))"
    if "map_of bods g = None" for out g
    using that by (simp add: write_custom_body_eq bods_get_def)
  show ?thesis
  proof (intro exI [of _ ?sc] conjI allI impI)
    show "C_Scraper fs (Some p) = Inr ?sc"
      by (rule 1)
    show "includes_lines ?sc = inc" "functions_lines ?sc = fns"
      by simp_all
    show "fst ` set (func_bods ?sc) = fst ` set (regions segs)"
      using 3 by simp
    show "bods_get (func_bods ?sc) g = captured segs g" for g
      using 2 by simp
    show "bods_get (func_bods ?sc) g = captured (pre @ post) g"
      if "f \<noteq> g" "segs = pre @ Region f cs # post" for f g cs pre post
      using 4 [OF that] by simp
    show "write_custom_body ?sc out g =
             out @ concat (fence (marker_format ''START'' g)) @
               concat (captured segs g) @ concat (fence (marker_format ''STOP'' g))"
      for out g
      by (rule 5)
    show "write_custom_body ?sc out g =
             out @ concat (fence (marker_format ''START'' g)) @
               concat (fence (marker_format ''STOP'' g))"
      if "map_of (func_bods ?sc) g = None" for out g
      using that 6 by simp
  qed
qed

text \<open>The file \<^const>\<open>example_c_file\<close> holds the two pairs and then the regions of
  \<open>setup\<close> and \<open>cleanup\<close> between generated lines.\<close>

theorem c2_regions_are_kept_apart_witness:
  "\<exists>sc. C_Scraper [''agent/adm_test_adm_impl.c'' \<mapsto> example_c_file]
             (Some ''agent/adm_test_adm_impl.c'') = Inr sc
           \<and> includes_lines sc = [''#include <math.h>'' @ [NL]]
           \<and> functions_lines sc = [''static int twice(int x) { return 2 * x; }'' @ [NL]]
           \<and> fst ` set (func_bods sc) = fst ` set (regions example_segments)
           \<and> (\<forall>g. bods_get (func_bods sc) g = captured example_segments g)
           \<and> (\<forall>f g cs pre post. f \<noteq> g \<longrightarrow> example_segments = pre @ Region f cs # post \<longrightarrow>
                  bods_get (func_bods sc) g = captured (pre @ post) g)
           \<and> (\<forall>out g.
                  write_custom_body sc out g =
                    out @ concat (fence (marker_format ''START'' g)) @
                      concat (captured example_segments g) @
                      concat (fence (marker_format ''STOP'' g)))
           \<and> (\<forall>out g. map_of (func_bods sc) g = None \<longrightarrow>
                  write_custom_body sc out g =
                    out @ concat (fence (marker_format ''START'' g)) @
                      concat (fence (marker_format ''STOP'' g)))"
proof -
  have c: "(\<forall>s\<in>set example_segments. segment_ok s)
      \<and> (\<forall>l\<in>set [''/* File Name: adm_test_adm_impl.c */'' @ [NL], [NL]].
             strip l \<noteq> fst make_custom_includes_markers)
      \<and> (\<forall>l\<in>set [''#include <math.h>'' @ [NL]]. strip l \<noteq> snd make_custom_includes_markers)
      \<and> (\<forall>l\<in>set [[NL], ''#include <adm.h>'' @ [NL], [NL]].
             strip l \<noteq> fst make_custom_functions_markers)
      \<and> (\<forall>l\<in>set [''static int twice(int x) { return 2 * x; }'' @ [NL]].
             strip l \<noteq> snd make_custom_functions_markers)
      \<and> [''agent/adm_test_adm_impl.c'' \<mapsto> example_c_file] ''agent/adm_test_adm_impl.c''
            = Some example_c_file
      \<and> readlines example_c_file
            = c_file_lines [''/* File Name: adm_test_adm_impl.c */'' @ [NL], [NL]]
                [''#include <math.h>'' @ [NL]]
                [[NL], ''#include <adm.h>'' @ [NL], [NL]]
                [''static int twice(int x) { return 2 * x; }'' @ [NL]]
                example_segments"
    by code_simp
  from c show ?thesis
    using c2_regions_are_kept_apart
      [of example_segments "[''/* File Name: adm_test_adm_impl.c */'' @ [NL], [NL]]"
          "[''#include <math.h>'' @ [NL]]" "[[NL], ''#include <adm.h>'' @ [NL], [NL]]"
          "[''static int twice(int x) { return 2 * x; }'' @ [NL]]"
          "[''agent/adm_test_adm_impl.c'' \<mapsto> example_c_file]"
          "''agent/adm_test_adm_impl.c''" example_c_file]
    by blast
qed

text \<open>The claim as stated fails.  In \<^const>\<open>unclosed_c_file\<close> the two pairs come first,
  the region of \<open>get_bar\<close> is opened and not closed, and the region of \<open>get_foo\<close>
  follows with both its fences.  The constructor captures the line that stands between
  the start and stop markers of \<open>get_foo\<close> in the entry of \<open>get_bar\<close>, and \<open>get_foo\<close>
  gets no entry.\<close>

theorem c2_counterexample:
  "C_Scraper [''agent/adm_test_adm_impl.c'' \<mapsto> unclosed_c_file]
     (Some ''agent/adm_test_adm_impl.c'')
   = Inr \<lparr>filename = Some ''agent/adm_test_adm_impl.c'',
          includes_lines = [''#include <math.h>'' @ [NL]],
          functions_lines = [''static int twice(int x) { return 2 * x; }'' @ [NL]],
          func_bods = [(''get_bar'', [''int bar;'' @ [NL], open_line, ''int foo;'' @ [NL]])]\<rparr>"
  by code_simp


subsection \<open>C4: a closing fence that does not match\<close>









subsection \<open>C5: a scrape source that cannot be read\<close>




text \<open>For the header flavor the handler of the failed \<^verbatim>\<open>open\<close> itself raises.\<close>

lemma H_Scraper_unreadable: "fs p = None \<Longrightarrow> H_Scraper fs (Some p) = Inl NameError"
  by (simp add: H_Scraper_def)


subsection \<open>C6: the order of the extraction calls\<close>

text \<open>
  Claim C6, as amended.  The queue holds the lines of the file in reverse, and every
  extraction call pops from its tail, so each call goes on FORWARD through the file from
  the line at which the previous call stopped: what a call leaves is an initial part of
  the queue it was given.  In a file whose includes pair comes first and whose
  functions pair comes later, the includes call returns the lines between the first
  pair and leaves the queue of the lines after it, and the functions call returns the
  lines between the later pair; the lines before the first pair and between the two
  pairs are dropped, whatever they are.
\<close>


theorem c6_scan_runs_forward:
  assumes "\<forall>l\<in>set pre. strip l \<noteq> fst make_custom_includes_markers"
    and "strip s1 = fst make_custom_includes_markers"
    and "\<forall>l\<in>set inc. strip l \<noteq> snd make_custom_includes_markers"
    and "strip e1 = snd make_custom_includes_markers"
    and "\<forall>l\<in>set mid. strip l \<noteq> fst make_custom_functions_markers"
    and "strip s2 = fst make_custom_functions_markers"
    and "\<forall>l\<in>set fns. strip l \<noteq> snd make_custom_functions_markers"
    and "strip e2 = snd make_custom_functions_markers"
  shows "find_custom_includes_in_queue (fill_queue (pre @ s1 # inc @ e1 # mid @ s2 # fns @ e2 # post))
           = (inc, fill_queue (mid @ s2 # fns @ e2 # post))
       \<and> find_custom_functions_in_queue (fill_queue (mid @ s2 # fns @ e2 # post))
           = (fns, fill_queue post)
       \<and> (\<exists>k. snd (find_custom_includes_in_queue q) = take k q)
       \<and> (\<exists>k. snd (find_custom_functions_in_queue q) = take k q)"
proof -
  have 1: "find_custom_includes_in_queue (fill_queue (pre @ s1 # inc @ e1 # mid @ s2 # fns @ e2 # post))
           = (inc, fill_queue (mid @ s2 # fns @ e2 # post))"
    unfolding find_custom_includes_in_queue_def make_custom_includes_markers_def
    by (rule find_in_queue_region) (use assms in \<open>simp_all add: make_custom_includes_markers_def\<close>)
  have 2: "find_custom_functions_in_queue (fill_queue (mid @ s2 # fns @ e2 # post))
           = (fns, fill_queue post)"
    unfolding find_custom_functions_in_queue_def make_custom_functions_markers_def
    by (rule find_in_queue_region) (use assms in \<open>simp_all add: make_custom_functions_markers_def\<close>)
  have 3: "\<exists>k. snd (find_custom_includes_in_queue q) = take k q"
    unfolding find_custom_includes_in_queue_def make_custom_includes_markers_def
    by (rule find_in_queue_prefix) simp
  have 4: "\<exists>k. snd (find_custom_functions_in_queue q) = take k q"
    unfolding find_custom_functions_in_queue_def make_custom_functions_markers_def
    by (rule find_in_queue_prefix) simp
  from 1 2 3 4 show ?thesis by blast
qed

theorem c6_scan_runs_forward_witness:
  "find_custom_includes_in_queue (fill_queue
      ([''/* generated */'' @ [NL]] @ (''/*   START CUSTOM INCLUDES HERE  */'' @ [NL]) #
       [''#include <math.h>'' @ [NL]] @ (''/*   STOP CUSTOM INCLUDES HERE  */'' @ [NL]) #
       [[NL]] @ (''/*   START CUSTOM FUNCTIONS HERE */'' @ [NL]) #
       [''int twice(int x);'' @ [NL]] @ (''/*   STOP CUSTOM FUNCTIONS HERE  */'' @ [NL]) #
       [''void setup() {}'' @ [NL]]))
     = ([''#include <math.h>'' @ [NL]],
        fill_queue ([[NL]] @ (''/*   START CUSTOM FUNCTIONS HERE */'' @ [NL]) #
          [''int twice(int x);'' @ [NL]] @ (''/*   STOP CUSTOM FUNCTIONS HERE  */'' @ [NL]) #
          [''void setup() {}'' @ [NL]]))
   \<and> find_custom_functions_in_queue (fill_queue
        ([[NL]] @ (''/*   START CUSTOM FUNCTIONS HERE */'' @ [NL]) #
          [''int twice(int x);'' @ [NL]] @ (''/*   STOP CUSTOM FUNCTIONS HERE  */'' @ [NL]) #
          [''void setup() {}'' @ [NL]]))
     = ([''int twice(int x);'' @ [NL]], fill_queue [''void setup() {}'' @ [NL]])
   \<and> (\<exists>k. snd (find_custom_includes_in_queue [''b'', ''a'']) = take k [''b'', ''a''])
   \<and> (\<exists>k. snd (find_custom_functions_in_queue [''b'', ''a'']) = take k [''b'', ''a''])"
proof -
  have 1: "\<forall>l\<in>set [''/* generated */'' @ [NL]]. strip l \<noteq> fst make_custom_includes_markers"
    by code_simp
  have 2: "strip (''/*   START CUSTOM INCLUDES HERE  */'' @ [NL]) = fst make_custom_includes_markers"
    by code_simp
  have 3: "\<forall>l\<in>set [''#include <math.h>'' @ [NL]]. strip l \<noteq> snd make_custom_includes_markers"
    by code_simp
  have 4: "strip (''/*   STOP CUSTOM INCLUDES HERE  */'' @ [NL]) = snd make_custom_includes_markers"
    by code_simp
  have 5: "\<forall>l\<in>set [[NL]]. strip l \<noteq> fst make_custom_functions_markers"
    by code_simp
  have 6: "strip (''/*   START CUSTOM FUNCTIONS HERE */'' @ [NL]) = fst make_custom_functions_markers"
    by code_simp
  have 7: "\<forall>l\<in>set [''int twice(int x);'' @ [NL]]. strip l \<noteq> snd make_custom_functions_markers"
    by code_simp
  have 8: "strip (''/*   STOP CUSTOM FUNCTIONS HERE  */'' @ [NL]) = snd make_custom_functions_markers"
    by code_simp
  show ?thesis
    by (rule c6_scan_runs_forward [OF 1 2 3 4 5 6 7 8])
qed

text \<open>The claim as stated fails: a functions pair that stands EARLIER in the file than
  the includes pair is not found by the later call, one that stands later is.\<close>

theorem c6_counterexample:
  "C_Scraper [''old.c'' \<mapsto>
       ''/*   START CUSTOM FUNCTIONS HERE */'' @ [NL] @ ''int twice(int x);'' @ [NL] @
       ''/*   STOP CUSTOM FUNCTIONS HERE  */'' @ [NL] @
       ''/*   START CUSTOM INCLUDES HERE  */'' @ [NL] @ ''#include <math.h>'' @ [NL] @
       ''/*   STOP CUSTOM INCLUDES HERE  */'' @ [NL]] (Some ''old.c'')
     = Inr \<lparr>filename = Some ''old.c'', includes_lines = [''#include <math.h>'' @ [NL]],
            functions_lines = [], func_bods = []\<rparr>
   \<and> C_Scraper [''old.c'' \<mapsto>
       ''/*   START CUSTOM INCLUDES HERE  */'' @ [NL] @ ''#include <math.h>'' @ [NL] @
       ''/*   STOP CUSTOM INCLUDES HERE  */'' @ [NL] @
       ''/*   START CUSTOM FUNCTIONS HERE */'' @ [NL] @ ''int twice(int x);'' @ [NL] @
       ''/*   STOP CUSTOM FUNCTIONS HERE  */'' @ [NL]] (Some ''old.c'')
     = Inr \<lparr>filename = Some ''old.c'', includes_lines = [''#include <math.h>'' @ [NL]],
            functions_lines = [''int twice(int x);'' @ [NL]], func_bods = []\<rparr>"
  by code_simp

section \<open>The claim about the orchestrator\<close>

subsection \<open>C3: which failures are isolated\<close>

lemma generate_no_abort:
  "\<forall>g\<in>set gens. \<not> aborts g \<Longrightarrow>
     generate gens failures attempted =
       (Return (if failures \<noteq> 0 \<or> (\<exists>g\<in>set gens. outcome g = Raises_IOError) then 2 else 0),
        attempted + length gens)"
proof (induction gens arbitrary: failures attempted)
  case Nil
  then show ?case by simp
next
  case (Cons g gens)
  then show ?case by (cases "outcome g") (auto simp: aborts_def)
qed

lemma generate_abort:
  "\<forall>g\<in>set pre. \<not> aborts g \<Longrightarrow> outcome g = Raises_other \<Longrightarrow>
     dir_exists g \<or> \<not> makedirs_raises g \<Longrightarrow>
     generate (pre @ g # post) failures attempted = (Propagate, Suc (attempted + length pre))"
proof (induction pre arbitrary: failures attempted)
  case Nil
  then show ?case by auto
next
  case (Cons p pre)
  then show ?case by (cases "outcome p") (auto simp: aborts_def)
qed

text \<open>
  Claim C3, as amended.  A writer whose \<^verbatim>\<open>open\<close> or \<^verbatim>\<open>write\<close> raises an
  \<^verbatim>\<open>IOError\<close> is isolated: when no generator raises anything else, the loop attempts
  every generator and \<^verbatim>\<open>run\<close> returns 2 if at least one failed and 0 otherwise.  An
  exception of any other kind is logged, counted and raised again: the generators after
  it are not attempted and \<^verbatim>\<open>run\<close> returns no exit code.
\<close>

theorem c3_only_io_errors_are_isolated:
  "((\<forall>g\<in>set gens. \<not> aborts g) \<longrightarrow>
      generate gens 0 0 =
        (Return (if \<exists>g\<in>set gens. outcome g = Raises_IOError then 2 else 0), length gens))
   \<and> ((\<forall>g\<in>set pre. \<not> aborts g) \<and> outcome g = Raises_other
        \<and> (dir_exists g \<or> \<not> makedirs_raises g) \<longrightarrow>
      generate (pre @ g # post) 0 0 = (Propagate, Suc (length pre)))"
  using generate_no_abort [of gens 0 0] generate_abort [of pre g post 0 0] by simp

theorem c3_only_io_errors_are_isolated_witness:
  "generate [generator_of Written, generator_of Raises_IOError, generator_of Written] 0 0 = (Return 2, 3)
   \<and> generate ([generator_of Written] @ generator_of Raises_other # [generator_of Written, generator_of Written]) 0 0
       = (Propagate, 2)"
proof -
  have 1: "\<forall>g\<in>set [generator_of Written, generator_of Raises_IOError, generator_of Written]. \<not> aborts g"
    by code_simp
  have 2: "(\<forall>g\<in>set [generator_of Written]. \<not> aborts g) \<and> outcome (generator_of Raises_other) = Raises_other
      \<and> (dir_exists (generator_of Raises_other) \<or> \<not> makedirs_raises (generator_of Raises_other))"
    by code_simp
  have 3: "(\<exists>g\<in>set [generator_of Written, generator_of Raises_IOError, generator_of Written].
              outcome g = Raises_IOError)"
    by code_simp
  from 1 2 3 show ?thesis
    using c3_only_io_errors_are_isolated
      [of "[generator_of Written, generator_of Raises_IOError, generator_of Written]" "[generator_of Written]"
          "generator_of Raises_other" "[generator_of Written, generator_of Written]"]
    by simp
qed

text \<open>The claim as stated fails: the second of the six writers raises an exception that
  is not an \<^verbatim>\<open>IOError\<close>; the four writers after it are never attempted and no exit code
  is returned.\<close>

theorem c3_counterexample:
  "run plain_args
     [generator_of Written, generator_of Raises_other, generator_of Written, generator_of Written, generator_of Written]
     (generator_of Written)
   = (Propagate, 2)"
  by code_simp


section \<open>The SQL writer: claims\<close>

subsection \<open>Examples run through the assembly\<close>

lemma report_adm_assembled:
  "(case assembled report_adm mysql of
      Inl e \<Rightarrow> False
    | Inr w \<Rightarrow> vars_use w - vars_def w = {''@test_adm_edd_uptime_aid''})"
  by (simp add: assembled_def sql_init_def report_adm_def empty_adm_def plain_obj_def
       edd_ref_def eval_defs write_defs)

lemma dangling_adm_before_mac:
  "(case sql_init dangling_adm pgsql of
      Inl e \<Rightarrow> False
    | Inr w0 \<Rightarrow> before_mac dangling_adm w0 = Inl RuntimeError_no_reference)"
  by (simp add: sql_init_def before_mac_def dangling_adm_def macro_adm_def empty_adm_def
       plain_obj_def edd_ref_def eval_defs write_defs)

lemma macro_adm_before_mac:
  "(case sql_init macro_adm pgsql of
      Inl e \<Rightarrow> False
    | Inr w0 \<Rightarrow> (case before_mac macro_adm w0 of Inl e \<Rightarrow> False | Inr r \<Rightarrow> True))"
  by (simp add: sql_init_def before_mac_def macro_adm_def empty_adm_def
       plain_obj_def eval_defs write_defs)

lemma sql_write_assembled:
  "sql_write a d today =
     (case assembled a d of
        Inl e \<Rightarrow> Inl e
      | Inr w \<Rightarrow>
          (case body_pre a w of
             Inl e \<Rightarrow> Inl e
           | Inr pre \<Rightarrow>
               Inr (foldl (\<lambda>outfile line. file_write (file_write outfile line) [NL]) []
                      (write_setup a today @ pre @ body w @ body_post w))))"
  by (simp add: sql_write_def sql_lines_def assembled_def split: sum.splits prod.splits)

lemma assembled_never_undefined: "assembled a d \<noteq> Inl (RuntimeError_undefined U)"
proof -
  have 1: "sql_init a d \<noteq> Inl (RuntimeError_undefined U)"
    by (simp add: sql_init_def var_name_def Let_def)
  have 2: "assemble a w0 \<noteq> Inl (RuntimeError_undefined U)" for w0
    using nu_assemble [of a] by (simp add: never_undefined_def)
  show ?thesis
    using 1 2 by (auto simp: assembled_def split: sum.splits)
qed

lemma body_pre_raises:
  "(\<exists>e. body_pre a w = Inl e) \<longleftrightarrow> vars_use w - vars_def w \<noteq> {}"
  "body_pre a w = Inl e \<Longrightarrow> e = RuntimeError_undefined (vars_use w - vars_def w)"
  by (auto simp: body_pre_def Let_def split: if_splits)

text \<open>
  Claim C7.  The SQL writer keeps the names it has defined and the names it has used.
  The per-object assembly (construction and the ten calls of \<^verbatim>\<open>write\<close>) never raises the
  error about undefined variables.  When the assembly has completed and left the writer
  \<open>w\<close>, the finalization step \<^verbatim>\<open>body_pre\<close> raises if and only if the set of used names
  minus the set of defined names is not empty; the error it raises carries exactly that
  set; and \<^verbatim>\<open>write\<close> raises exactly what the finalization step raises.
\<close>

theorem c7_undefined_variables_are_reported_at_finalization:
  "assembled a d \<noteq> Inl (RuntimeError_undefined U) \<and>
   (assembled a d = Inr w \<longrightarrow>
      ((\<exists>e. body_pre a w = Inl e) \<longleftrightarrow> vars_use w - vars_def w \<noteq> {}) \<and>
      (\<forall>e. body_pre a w = Inl e \<longrightarrow> e = RuntimeError_undefined (vars_use w - vars_def w)) \<and>
      (\<forall>e. sql_write a d today = Inl e \<longleftrightarrow> body_pre a w = Inl e))"
proof (intro conjI impI)
  show "assembled a d \<noteq> Inl (RuntimeError_undefined U)"
    by (rule assembled_never_undefined)
next
  show "(\<exists>e. body_pre a w = Inl e) \<longleftrightarrow> vars_use w - vars_def w \<noteq> {}"
    by (rule body_pre_raises(1))
next
  show "\<forall>e. body_pre a w = Inl e \<longrightarrow> e = RuntimeError_undefined (vars_use w - vars_def w)"
    using body_pre_raises(2) by blast
next
  assume "assembled a d = Inr w"
  then show "\<forall>e. sql_write a d today = Inl e \<longleftrightarrow> body_pre a w = Inl e"
    by (simp add: sql_write_assembled split: sum.splits)
qed

text \<open>The report template of \<^const>\<open>report_adm\<close> lists one entry.  For MySQL the id of the
  entry is recorded as used with the prefix \<^verbatim>\<open>@\<close>, under which no name is defined: the
  assembly completes and the finalization step reports that name.\<close>

theorem c7_undefined_variables_are_reported_at_finalization_witness:
  "sql_write report_adm mysql ''2026-01-01'' =
     Inl (RuntimeError_undefined {''@test_adm_edd_uptime_aid''})"
proof -
  obtain w where w: "assembled report_adm mysql = Inr w"
    and u: "vars_use w - vars_def w = {''@test_adm_edd_uptime_aid''}"
    using report_adm_assembled by (cases "assembled report_adm mysql") auto
  have 1: "((\<exists>e. body_pre report_adm w = Inl e) \<longleftrightarrow> vars_use w - vars_def w \<noteq> {})
      \<and> (\<forall>e. body_pre report_adm w = Inl e \<longrightarrow>
             e = RuntimeError_undefined (vars_use w - vars_def w))
      \<and> (\<forall>e. sql_write report_adm mysql ''2026-01-01'' = Inl e \<longleftrightarrow> body_pre report_adm w = Inl e)"
    using c7_undefined_variables_are_reported_at_finalization
            [of report_adm mysql "{}" w "''2026-01-01''"] w
    by blast
  from 1 u obtain e where e: "body_pre report_adm w = Inl e"
    by auto
  with 1 u have "e = RuntimeError_undefined {''@test_adm_edd_uptime_aid''}"
    by auto
  with 1 e show ?thesis
    by blast
qed

text \<open>
  Claim C10, as the code has it.  In \<^verbatim>\<open>write_mac_functions\<close> the body of the loop over
  the macros reads the unbound name \<^verbatim>\<open>m\<close>.  So for an ADM with at least one macro that
  method raises \<^verbatim>\<open>NameError\<close> on whatever writer it runs, and \<^verbatim>\<open>write\<close> never returns a
  script: it raises what the construction or one of the nine earlier calls raises, if
  one of them raises, and \<^verbatim>\<open>NameError\<close> otherwise.
\<close>

theorem c10_macros_stop_sql_generation:
  assumes "mac a \<noteq> []"
  shows "write_mac_functions a w = Inl NameError \<and>
    sql_write a d today =
      (case sql_init a d of
         Inl e \<Rightarrow> Inl e
       | Inr w0 \<Rightarrow> (case before_mac a w0 of Inl e \<Rightarrow> Inl e | Inr r \<Rightarrow> Inl NameError)) \<and>
    (\<forall>out. sql_write a d today \<noteq> Inr out)"
proof -
  have m: "write_mac_functions a w' = Inl NameError" for w'
    using assms by (rule write_mac_functions_raises)
  have s: "sql_write a d today =
      (case sql_init a d of
         Inl e \<Rightarrow> Inl e
       | Inr w0 \<Rightarrow> (case before_mac a w0 of Inl e \<Rightarrow> Inl e | Inr r \<Rightarrow> Inl NameError))"
    by (simp add: sql_write_def sql_lines_def assemble_before_mac gen_seq_apply m
          split: sum.splits prod.splits)
  have "\<forall>out. sql_write a d today \<noteq> Inr out"
    unfolding s by (simp split: sum.splits)
  with m s show ?thesis
    by blast
qed

text \<open>For an ADM that holds one macro and nothing else, the nine earlier calls
  complete and \<^verbatim>\<open>write\<close> raises \<^verbatim>\<open>NameError\<close>.\<close>

theorem c10_macros_stop_sql_generation_witness:
  "sql_write macro_adm pgsql ''2026-01-01'' = Inl NameError"
proof -
  have "mac macro_adm \<noteq> []"
    by (simp add: macro_adm_def)
  from c10_macros_stop_sql_generation [OF this, of undefined pgsql "''2026-01-01''"]
  have "sql_write macro_adm pgsql ''2026-01-01'' =
      (case sql_init macro_adm pgsql of
         Inl e \<Rightarrow> Inl e
       | Inr w0 \<Rightarrow> (case before_mac macro_adm w0 of Inl e \<Rightarrow> Inl e | Inr r \<Rightarrow> Inl NameError))"
    by blast
  with macro_adm_before_mac show ?thesis
    by (simp split: sum.splits)
qed

text \<open>Against the claim as it was stated: \<^const>\<open>dangling_adm\<close> has a macro, but its
  report template refers to an object that is not found, so \<^verbatim>\<open>write_rptt_functions\<close>,
  which runs before \<^verbatim>\<open>write_mac_functions\<close>, raises \<^verbatim>\<open>RuntimeError\<close>, and that is what
  \<^verbatim>\<open>write\<close> raises.\<close>

theorem c10_counterexample:
  "mac dangling_adm \<noteq> [] \<and>
   sql_write dangling_adm pgsql ''2026-01-01'' = Inl RuntimeError_no_reference \<and>
   sql_write dangling_adm pgsql ''2026-01-01'' \<noteq> Inl NameError"
proof -
  have 1: "mac dangling_adm \<noteq> []"
    by (simp add: dangling_adm_def macro_adm_def)
  obtain w0 where w0: "sql_init dangling_adm pgsql = Inr w0"
    and b: "before_mac dangling_adm w0 = Inl RuntimeError_no_reference"
    using dangling_adm_before_mac by (cases "sql_init dangling_adm pgsql") auto
  have "sql_write dangling_adm pgsql ''2026-01-01'' = Inl RuntimeError_no_reference"
    by (simp add: sql_write_def sql_lines_def assemble_before_mac gen_seq_apply w0 b)
  with 1 show ?thesis
    by simp
qed


end
